theory Spec2Isabelle
  imports Complex_Main "HOL-Library.Char_ord" "HOL-Library.List_Lexorder"
begin

section \<open>FitTrack model training pipeline (\<^verbatim>\<open>ml/train_models.py\<close>)\<close>

text \<open>
  The script trains three predictors with pandas and scikit-learn. Python floats are
  modelled as \<^typ>\<open>real\<close> (exact arithmetic), a missing value (NaN) of a pandas column as
  \<^const>\<open>None\<close>, and every exception as the \<open>Inl\<close> branch of a sum.
\<close>

subsection \<open>Errors\<close>

datatype error =
    KeyError string
  | ValueError
  | TypeError
  | IndexError
  | NotFittedError
  | OSError
  | SystemExit

definition and_then :: "error + 'a \<Rightarrow> ('a \<Rightarrow> error + 'b) \<Rightarrow> error + 'b" where
  "and_then r f = (case r of Inl e \<Rightarrow> Inl e | Inr x \<Rightarrow> f x)"

subsection \<open>pandas: columns and data frames\<close>

text \<open>
  A column has one dtype. \<open>NumCol\<close> is a numeric column (\<^verbatim>\<open>float64\<close>, or \<^verbatim>\<open>int64\<close>
  when nothing is missing), \<open>BoolCol\<close> a column of dtype \<^verbatim>\<open>bool\<close> (it cannot hold a
  missing value), \<open>StrCol\<close> a column of dtype \<^verbatim>\<open>object\<close> holding strings. A data frame
  is the list of its named columns, in order; \<^verbatim>\<open>read_csv\<close> gives it the positional
  index \<open>0, 1, \<dots>\<close>, so a row is a position. Object columns that mix booleans with
  missing entries are not represented.
\<close>

datatype column =
    NumCol "real option list"
  | BoolCol "bool list"
  | StrCol "string option list"

type_synonym DataFrame = "(string \<times> column) list"

fun col_length :: "column \<Rightarrow> nat" where
  "col_length (NumCol xs) = length xs"
| "col_length (BoolCol bs) = length bs"
| "col_length (StrCol ss) = length ss"

definition nrows :: "DataFrame \<Rightarrow> nat" where
  "nrows df = (case df of [] \<Rightarrow> 0 | (_, c) # _ \<Rightarrow> col_length c)"

text \<open>\<^verbatim>\<open>df[name]\<close>: the column of that label; a label that is absent raises \<^verbatim>\<open>KeyError\<close>.\<close>

definition getitem :: "DataFrame \<Rightarrow> string \<Rightarrow> error + column" where
  "getitem df name = (case map_of df name of None \<Rightarrow> Inl (KeyError name) | Some c \<Rightarrow> Inr c)"

text \<open>\<^verbatim>\<open>df[names]\<close>: a new frame of the listed columns, in the order of the list.\<close>

fun getitem_list :: "DataFrame \<Rightarrow> string list \<Rightarrow> error + DataFrame" where
  "getitem_list df [] = Inr []"
| "getitem_list df (name # names) =
     and_then (getitem df name) (\<lambda>c.
     and_then (getitem_list df names) (\<lambda>rest. Inr ((name, c) # rest)))"

text \<open>
  \<^verbatim>\<open>median()\<close> skips missing values: the middle of the sorted present values, the mean
  of the two middle ones when their number is even, and NaN when there is none.
\<close>

definition present :: "'a option list \<Rightarrow> 'a list" where
  "present xs = concat (map (\<lambda>x. case x of None \<Rightarrow> [] | Some v \<Rightarrow> [v]) xs)"

definition median_list :: "real list \<Rightarrow> real option" where
  "median_list xs =
     (let s = sort xs; n = length s
      in if n = 0 then None
         else if odd n then Some (s ! (n div 2))
         else Some ((s ! (n div 2 - 1) + s ! (n div 2)) / 2))"

definition of_bool_real :: "bool \<Rightarrow> real" where
  "of_bool_real b = (if b then 1 else 0)"

text \<open>A boolean column counts as 0/1; the median of a column of strings raises.\<close>

fun column_median :: "column \<Rightarrow> error + real option" where
  "column_median (NumCol xs) = Inr (median_list (present xs))"
| "column_median (BoolCol bs) = Inr (median_list (map of_bool_real bs))"
| "column_median (StrCol ss) = Inl TypeError"

fun median :: "DataFrame \<Rightarrow> error + (string \<times> real option) list" where
  "median [] = Inr []"
| "median ((name, c) # df) =
     and_then (column_median c) (\<lambda>m.
     and_then (median df) (\<lambda>rest. Inr ((name, m) # rest)))"

text \<open>
  \<^verbatim>\<open>fillna(values)\<close> with one value per column label: a new frame in which every missing
  entry of a column is that column's value. A value that is itself NaN fills nothing.
  Only a numeric column reaches this point with missing entries.
\<close>

definition fill_value :: "real option \<Rightarrow> real option \<Rightarrow> real option" where
  "fill_value m x = (case x of None \<Rightarrow> m | Some v \<Rightarrow> Some v)"

fun fillna_column :: "real option \<Rightarrow> column \<Rightarrow> column" where
  "fillna_column m (NumCol xs) = NumCol (map (fill_value m) xs)"
| "fillna_column m (BoolCol bs) = BoolCol bs"
| "fillna_column m (StrCol ss) = StrCol ss"

definition fillna :: "DataFrame \<Rightarrow> (string \<times> real option) list \<Rightarrow> DataFrame" where
  "fillna df values =
     map (\<lambda>(name, c). (name, case map_of values name of None \<Rightarrow> c | Some m \<Rightarrow> fillna_column m c)) df"

text \<open>
  \<^verbatim>\<open>astype(int)\<close>: a float is truncated towards zero, a boolean is 0 or 1; a missing
  value raises, and so does a column of strings (after \<^verbatim>\<open>read_csv\<close> such a column
  holds an entry that is not a number).
\<close>

definition trunc :: "real \<Rightarrow> int" where
  "trunc x = (if 0 \<le> x then \<lfloor>x\<rfloor> else \<lceil>x\<rceil>)"

fun astype_int :: "column \<Rightarrow> error + int list" where
  "astype_int (NumCol xs) =
     (if list_all (\<lambda>x. x \<noteq> None) xs then Inr (map trunc (present xs)) else Inl ValueError)"
| "astype_int (BoolCol bs) = Inr (map (\<lambda>b. if b then 1 else 0) bs)"
| "astype_int (StrCol ss) = Inl ValueError"

text \<open>
  \<^verbatim>\<open>get_dummies(series, prefix=p)\<close>: one boolean indicator column per distinct value
  that is present, in sorted order, named \<^verbatim>\<open>p_value\<close>; a row whose entry is missing
  has no indicator set. Only a column of strings is modelled (the names of the indicators
  of numbers would need Python's number formatting).
\<close>

definition categories :: "string option list \<Rightarrow> string list" where
  "categories ss = sort (remdups (present ss))"

definition indicator :: "string option list \<Rightarrow> string \<Rightarrow> bool list" where
  "indicator ss v = map (\<lambda>s. s = Some v) ss"

fun get_dummies :: "column \<Rightarrow> string \<Rightarrow> error + DataFrame" where
  "get_dummies (StrCol ss) prefix =
     Inr (map (\<lambda>v. (prefix @ ''_'' @ v, BoolCol (indicator ss v))) (categories ss))"
| "get_dummies (NumCol xs) prefix = Inl TypeError"
| "get_dummies (BoolCol bs) prefix = Inl TypeError"

text \<open>\<^verbatim>\<open>concat([a, b], axis=1)\<close> of two frames with the same index: the columns side by side.\<close>

definition concat_columns :: "DataFrame \<Rightarrow> DataFrame \<Rightarrow> DataFrame" where
  "concat_columns a b = a @ b"

text \<open>\<^verbatim>\<open>series == True\<close>: the boolean mask; a number equals \<^verbatim>\<open>True\<close> when it is 1.\<close>

fun eq_True :: "column \<Rightarrow> bool list" where
  "eq_True (BoolCol bs) = bs"
| "eq_True (NumCol xs) = map (\<lambda>x. x = Some 1) xs"
| "eq_True (StrCol ss) = map (\<lambda>_. False) ss"

text \<open>\<^verbatim>\<open>df[mask]\<close>: the rows at which the mask is true.\<close>

definition keep :: "bool list \<Rightarrow> 'a list \<Rightarrow> 'a list" where
  "keep sel xs = map snd (filter fst (zip sel xs))"

fun mask_column :: "bool list \<Rightarrow> column \<Rightarrow> column" where
  "mask_column sel (NumCol xs) = NumCol (keep sel xs)"
| "mask_column sel (BoolCol bs) = BoolCol (keep sel bs)"
| "mask_column sel (StrCol ss) = StrCol (keep sel ss)"

definition getitem_mask :: "DataFrame \<Rightarrow> bool list \<Rightarrow> DataFrame" where
  "getitem_mask df sel = map (\<lambda>(name, c). (name, mask_column sel c)) df"

text \<open>Selecting rows by position (\<^verbatim>\<open>iloc\<close>); a position out of range raises.\<close>

definition take_rows :: "'a list \<Rightarrow> nat list \<Rightarrow> error + 'a list" where
  "take_rows xs idx =
     (if list_all (\<lambda>i. i < length xs) idx then Inr (map (\<lambda>i. xs ! i) idx) else Inl IndexError)"

text \<open>
  The numeric matrix scikit-learn makes of a frame, as a list of rows. A frame with no
  column or a column of strings raises. An entry that is still missing raises as well:
  estimators that accept NaN are not modelled.
\<close>

fun to_numeric :: "column \<Rightarrow> error + real list" where
  "to_numeric (NumCol xs) =
     (if list_all (\<lambda>x. x \<noteq> None) xs then Inr (present xs) else Inl ValueError)"
| "to_numeric (BoolCol bs) = Inr (map of_bool_real bs)"
| "to_numeric (StrCol ss) = Inl ValueError"

fun to_columns :: "DataFrame \<Rightarrow> error + real list list" where
  "to_columns [] = Inr []"
| "to_columns ((name, c) # df) =
     and_then (to_numeric c) (\<lambda>xs.
     and_then (to_columns df) (\<lambda>rest. Inr (xs # rest)))"

definition rows_of :: "nat \<Rightarrow> 'a list list \<Rightarrow> 'a list list" where
  "rows_of n cols = map (\<lambda>i. map (\<lambda>c. c ! i) cols) [0..<n]"

definition to_matrix :: "DataFrame \<Rightarrow> error + real list list" where
  "to_matrix df =
     (if df = [] then Inl ValueError
      else and_then (to_columns df) (\<lambda>cols. Inr (rows_of (nrows df) cols)))"

subsection \<open>StandardScaler\<close>

text \<open>
  Modelled from the spec: scikit-learn's \<^verbatim>\<open>StandardScaler\<close> is a library class, not
  code of this repository. The spec (4.3) gives its contract: \<^verbatim>\<open>fit\<close> learns the
  per-column mean and standard deviation, \<^verbatim>\<open>scaled = (x - mean) / std\<close>, and the
  standard deviation of a constant column is treated as 1. The standard deviation is the
  population one (the mean of the squared deviations, under a square root).
\<close>

definition mean :: "real list \<Rightarrow> real" where
  "mean xs = sum_list xs / real (length xs)"

definition variance :: "real list \<Rightarrow> real" where
  "variance xs = mean (map (\<lambda>x. (x - mean xs)\<^sup>2) xs)"

definition std :: "real list \<Rightarrow> real" where
  "std xs = sqrt (variance xs)"

definition column :: "nat \<Rightarrow> 'a list list \<Rightarrow> 'a list" where
  "column j X = map (\<lambda>row. row ! j) X"

record StandardScaler =
  scaler_mean :: "real list"
  scaler_scale :: "real list"

definition rectangular :: "nat \<Rightarrow> 'a list list \<Rightarrow> bool" where
  "rectangular d X = list_all (\<lambda>row. length row = d) X"

definition column_scale :: "real list \<Rightarrow> real" where
  "column_scale xs = (if variance xs = 0 then 1 else std xs)"

definition scaler_fit :: "real list list \<Rightarrow> error + StandardScaler" where
  "scaler_fit X =
     (case X of
        [] \<Rightarrow> Inl ValueError
      | row # _ \<Rightarrow>
          if rectangular (length row) X
          then Inr \<lparr>scaler_mean = map (\<lambda>j. mean (column j X)) [0..<length row],
                    scaler_scale = map (\<lambda>j. column_scale (column j X)) [0..<length row]\<rparr>
          else Inl ValueError)"

definition scale_row :: "StandardScaler \<Rightarrow> real list \<Rightarrow> real list" where
  "scale_row s row =
     map (\<lambda>(x, m, sd). (x - m) / sd) (zip row (zip (scaler_mean s) (scaler_scale s)))"

definition scaler_transform :: "StandardScaler \<Rightarrow> real list list \<Rightarrow> error + real list list" where
  "scaler_transform s X =
     (if X \<noteq> [] \<and> rectangular (length (scaler_mean s)) X
      then Inr (map (scale_row s) X)
      else Inl ValueError)"

definition scaler_fit_transform ::
  "real list list \<Rightarrow> error + StandardScaler \<times> real list list" where
  "scaler_fit_transform X =
     and_then (scaler_fit X) (\<lambda>s.
     and_then (scaler_transform s X) (\<lambda>X_scaled. Inr (s, X_scaled)))"

subsection \<open>The estimators and the random number generator\<close>

text \<open>
  The random forests and the shuffling of \<^verbatim>\<open>train_test_split\<close> are library code.
  They are parameters of the model, collected in one record: \<open>split_indices rng
  test_size n\<close> is the pair of the training and the test positions chosen among \<open>n\<close>
  rows (or the error raised when one side would be empty), \<open>classifier_fit\<close> and
  \<open>regressor_fit\<close> build a fitted forest. Every one of them that
  draws random numbers takes the generator it draws from: scikit-learn resolves its
  \<^verbatim>\<open>random_state\<close> argument with \<^verbatim>\<open>check_random_state\<close>, which builds a
  generator from an integer seed and falls back on the process-wide numpy generator when
  the argument is \<^verbatim>\<open>None\<close>.
\<close>

datatype 'g rng = Seeded int | Global 'g

definition check_random_state :: "int option \<Rightarrow> 'g \<Rightarrow> 'g rng" where
  "check_random_state random_state g =
     (case random_state of None \<Rightarrow> Global g | Some seed \<Rightarrow> Seeded seed)"

text \<open>The arguments a forest is constructed with; \<^const>\<open>None\<close> is an argument not given.\<close>

record forest_params =
  n_estimators :: nat
  max_depth :: nat
  min_samples_split :: "nat option"
  random_state :: "int option"

record ('g, 'c, 'r) sklearn =
  split_indices :: "'g rng \<Rightarrow> real \<Rightarrow> nat \<Rightarrow> error + nat list \<times> nat list"
  classifier_fit :: "forest_params \<Rightarrow> 'g rng \<Rightarrow> real list list \<Rightarrow> int list \<Rightarrow> error + 'c"
  classifier_predict :: "'c \<Rightarrow> real list list \<Rightarrow> int list"
  classifier_predict_proba :: "'c \<Rightarrow> real list list \<Rightarrow> real list list"
  classifier_importances :: "'c \<Rightarrow> real list"
  regressor_fit :: "forest_params \<Rightarrow> 'g rng \<Rightarrow> real list list \<Rightarrow> real list \<Rightarrow> error + 'r"
  regressor_predict :: "'r \<Rightarrow> real list list \<Rightarrow> real list"

subsection \<open>train_test_split\<close>

fun iloc_column :: "column \<Rightarrow> nat list \<Rightarrow> error + column" where
  "iloc_column (NumCol xs) idx = and_then (take_rows xs idx) (\<lambda>ys. Inr (NumCol ys))"
| "iloc_column (BoolCol bs) idx = and_then (take_rows bs idx) (\<lambda>ys. Inr (BoolCol ys))"
| "iloc_column (StrCol ss) idx = and_then (take_rows ss idx) (\<lambda>ys. Inr (StrCol ys))"

fun iloc :: "DataFrame \<Rightarrow> nat list \<Rightarrow> error + DataFrame" where
  "iloc [] idx = Inr []"
| "iloc ((name, c) # df) idx =
     and_then (iloc_column c idx) (\<lambda>c'.
     and_then (iloc df idx) (\<lambda>rest. Inr ((name, c') # rest)))"

text \<open>
  \<^verbatim>\<open>train_test_split(X, y, test_size, random_state)\<close>: the rows of \<open>X\<close> and of \<open>y\<close> at the
  training positions and at the test positions. The first two arguments say how the
  target is indexed and measured: it is a list of labels for the classifier and a column
  for the regressors.
\<close>

definition train_test_split_with ::
  "('y \<Rightarrow> nat list \<Rightarrow> error + 'y) \<Rightarrow> ('y \<Rightarrow> nat) \<Rightarrow> ('g, 'c, 'r) sklearn \<Rightarrow> 'g \<Rightarrow>
   DataFrame \<Rightarrow> 'y \<Rightarrow> real \<Rightarrow> int option \<Rightarrow> error + DataFrame \<times> DataFrame \<times> 'y \<times> 'y" where
  "train_test_split_with iloc_y len_y sk g X y test_size seed =
     (if len_y y \<noteq> nrows X then Inl ValueError
      else
        and_then (split_indices sk (check_random_state seed g) test_size (nrows X))
          (\<lambda>(train, test).
        and_then (iloc X train) (\<lambda>X_train.
        and_then (iloc X test) (\<lambda>X_test.
        and_then (iloc_y y train) (\<lambda>y_train.
        and_then (iloc_y y test) (\<lambda>y_test.
          Inr (X_train, X_test, y_train, y_test)))))))"

definition train_test_split_labels ::
  "('g, 'c, 'r) sklearn \<Rightarrow> 'g \<Rightarrow> DataFrame \<Rightarrow> int list \<Rightarrow> real \<Rightarrow> int option \<Rightarrow>
   error + DataFrame \<times> DataFrame \<times> int list \<times> int list" where
  "train_test_split_labels = train_test_split_with take_rows length"

definition train_test_split_series ::
  "('g, 'c, 'r) sklearn \<Rightarrow> 'g \<Rightarrow> DataFrame \<Rightarrow> column \<Rightarrow> real \<Rightarrow> int option \<Rightarrow>
   error + DataFrame \<times> DataFrame \<times> column \<times> column" where
  "train_test_split_series = train_test_split_with iloc_column col_length"

subsection \<open>Metrics\<close>

text \<open>
  Modelled from the spec: the metric functions of scikit-learn are library code. The spec
  (4.5) gives them: accuracy is the fraction exactly correct, RMSE the square root of the
  mean squared residual, R squared the coefficient of determination against the test
  targets. R squared is NaN (\<^const>\<open>None\<close>) on fewer than two samples; when the targets do not vary it is
  1 for a perfect prediction and 0 otherwise. Targets and predictions of different
  lengths raise.
\<close>

definition accuracy_score :: "int list \<Rightarrow> int list \<Rightarrow> error + real" where
  "accuracy_score y_true y_pred =
     (if length y_true \<noteq> length y_pred \<or> y_true = [] then Inl ValueError
      else Inr (real (length (filter (\<lambda>(a, b). a = b) (zip y_true y_pred)))
                / real (length y_true)))"

definition mean_squared_error :: "real list \<Rightarrow> real list \<Rightarrow> error + real" where
  "mean_squared_error y_true y_pred =
     (if length y_true \<noteq> length y_pred \<or> y_true = [] then Inl ValueError
      else Inr (mean (map (\<lambda>(a, b). (a - b)\<^sup>2) (zip y_true y_pred))))"

definition r2_score :: "real list \<Rightarrow> real list \<Rightarrow> error + real option" where
  "r2_score y_true y_pred =
     (if length y_true \<noteq> length y_pred \<or> y_true = [] then Inl ValueError
      else if length y_true < 2 then Inr None
      else
        let numerator = sum_list (map (\<lambda>(a, b). (a - b)\<^sup>2) (zip y_true y_pred));
            denominator = sum_list (map (\<lambda>a. (a - mean y_true)\<^sup>2) y_true)
        in if denominator \<noteq> 0 then Inr (Some (1 - numerator / denominator))
           else if numerator \<noteq> 0 then Inr (Some 0)
           else Inr (Some 1))"

text \<open>
  \<^verbatim>\<open>classification_report\<close> only prints, but it raises when the labels that occur in
  the test targets and the predictions are not as many as the target names given.
\<close>

definition classification_report :: "int list \<Rightarrow> int list \<Rightarrow> string list \<Rightarrow> error + unit" where
  "classification_report y_true y_pred target_names =
     (if length y_true \<noteq> length y_pred \<or> y_true = [] then Inl ValueError
      else if length (remdups (y_true @ y_pred)) \<noteq> length target_names then Inl ValueError
      else Inr ())"

text \<open>
  The table of feature importances, sorted by descending importance (features of equal
  importance keep their order); columns of different lengths raise.
\<close>

definition importance_table :: "string list \<Rightarrow> real list \<Rightarrow> error + (string \<times> real) list" where
  "importance_table names importances =
     (if length names \<noteq> length importances then Inl ValueError
      else Inr (sort_key (\<lambda>(name, w). - w) (zip names importances)))"

subsection \<open>WorkoutSuccessPredictor\<close>

record 'c WorkoutSuccessPredictor =
  wsp_params :: forest_params
  wsp_model :: "'c option"
  wsp_scaler :: "StandardScaler option"
  wsp_feature_names :: "string list"

definition WorkoutSuccessPredictor_init :: "'c WorkoutSuccessPredictor" where
  "WorkoutSuccessPredictor_init =
     \<lparr>wsp_params = \<lparr>n_estimators = 100, max_depth = 10, min_samples_split = Some 5,
                     random_state = Some 42\<rparr>,
      wsp_model = None,
      wsp_scaler = None,
      wsp_feature_names =
        [''sleep_hours'', ''sleep_quality'', ''calories'', ''protein'', ''fatigue_score'',
         ''days_since_rest'', ''planned_volume'', ''readiness_score'',
         ''injury_risk_score'']\<rparr>"

record success_prediction =
  will_complete :: bool
  probability :: real
  confidence :: real

text \<open>
  The first two lines of \<^verbatim>\<open>predict\<close>: scale the one-row matrix and read the entry
  \<^verbatim>\<open>[0][1]\<close> of what \<^verbatim>\<open>predict_proba\<close> returns. An unfitted scaler or model and an
  index out of range raise.
\<close>

definition wsp_probability ::
  "('g, 'c, 'r) sklearn \<Rightarrow> 'c WorkoutSuccessPredictor \<Rightarrow> real list \<Rightarrow> error + real" where
  "wsp_probability sk self features =
     (case wsp_scaler self of
        None \<Rightarrow> Inl NotFittedError
      | Some s \<Rightarrow>
          and_then (scaler_transform s [features]) (\<lambda>features_scaled.
            case wsp_model self of
              None \<Rightarrow> Inl NotFittedError
            | Some m \<Rightarrow>
                (case classifier_predict_proba sk m features_scaled of
                   [] \<Rightarrow> Inl IndexError
                 | row # _ \<Rightarrow> if 1 < length row then Inr (row ! 1) else Inl IndexError)))"

definition wsp_predict ::
  "('g, 'c, 'r) sklearn \<Rightarrow> 'c WorkoutSuccessPredictor \<Rightarrow> real list \<Rightarrow> error + success_prediction" where
  "wsp_predict sk self features =
     and_then (wsp_probability sk self features) (\<lambda>probability.
       Inr \<lparr>will_complete = probability > 0.5,
            probability = probability,
            confidence = \<bar>probability - 0.5\<bar> * 2\<rparr>)"

record success_metrics =
  accuracy :: real
  feature_importance :: "(string \<times> real) list"

definition wsp_prepare_data ::
  "'c WorkoutSuccessPredictor \<Rightarrow> DataFrame \<Rightarrow> error + DataFrame \<times> int list" where
  "wsp_prepare_data self df =
     and_then (getitem_list df (wsp_feature_names self)) (\<lambda>features.
     and_then (median features) (\<lambda>medians.
     and_then (getitem df ''workout_completed'') (\<lambda>completed.
     and_then (astype_int completed) (\<lambda>y.
       Inr (fillna features medians, y)))))"

text \<open>
  \<^verbatim>\<open>train\<close> returns the metrics and leaves the fitted scaler and model in the
  predictor; the model returns the predictor as well, and a run that raises returns the
  error alone. \<open>g\<close> is the state of the process-wide random number generator when the run
  starts.
\<close>

definition wsp_train ::
  "('g, 'c, 'r) sklearn \<Rightarrow> 'g \<Rightarrow> 'c WorkoutSuccessPredictor \<Rightarrow> DataFrame \<Rightarrow>
   error + 'c WorkoutSuccessPredictor \<times> success_metrics" where
  "wsp_train sk g self df =
     and_then (wsp_prepare_data self df) (\<lambda>(X, y).
     and_then (train_test_split_labels sk g X y 0.2 (Some 42))
       (\<lambda>(X_train, X_test, y_train, y_test).
     and_then (to_matrix X_train) (\<lambda>M_train.
     and_then (scaler_fit_transform M_train) (\<lambda>(scaler, X_train_scaled).
     and_then (to_matrix X_test) (\<lambda>M_test.
     and_then (scaler_transform scaler M_test) (\<lambda>X_test_scaled.
     and_then (classifier_fit sk (wsp_params self)
                 (check_random_state (random_state (wsp_params self)) g)
                 X_train_scaled y_train) (\<lambda>model.
     let y_pred = classifier_predict sk model X_test_scaled in
     and_then (accuracy_score y_test y_pred) (\<lambda>accuracy.
     and_then (classification_report y_test y_pred [''Failed'', ''Completed'']) (\<lambda>_.
     and_then (importance_table (wsp_feature_names self) (classifier_importances sk model))
       (\<lambda>importance.
       Inr (self\<lparr>wsp_model := Some model, wsp_scaler := Some scaler\<rparr>,
            \<lparr>accuracy = accuracy, feature_importance = importance\<rparr>)))))))))))"

subsection \<open>RecoveryTimePredictor\<close>

record 'r RecoveryTimePredictor =
  rtp_params :: forest_params
  rtp_model :: "'r option"
  rtp_scaler :: "StandardScaler option"
  rtp_feature_names :: "string list"
  rtp_muscle_groups :: "string list"

definition RecoveryTimePredictor_init :: "'r RecoveryTimePredictor" where
  "RecoveryTimePredictor_init =
     \<lparr>rtp_params = \<lparr>n_estimators = 100, max_depth = 10, min_samples_split = None,
                     random_state = Some 42\<rparr>,
      rtp_model = None,
      rtp_scaler = None,
      rtp_feature_names =
        [''workout_volume'', ''workout_intensity'', ''sleep_quality'', ''nutrition_quality''],
      rtp_muscle_groups = [''chest'', ''back'', ''shoulders'', ''legs'', ''arms'', ''core'']\<rparr>"

record regression_metrics =
  r2 :: "real option"
  rmse :: real

definition rtp_prepare_data ::
  "'r RecoveryTimePredictor \<Rightarrow> DataFrame \<Rightarrow> error + DataFrame \<times> column" where
  "rtp_prepare_data self df =
     and_then (getitem df ''muscle_group'') (\<lambda>muscle_group.
     and_then (get_dummies muscle_group ''muscle'') (\<lambda>muscle_dummies.
     and_then (getitem_list df (rtp_feature_names self)) (\<lambda>features.
     and_then (median features) (\<lambda>medians.
     and_then (getitem df ''actual_recovery_days'') (\<lambda>y.
       Inr (concat_columns (fillna features medians) muscle_dummies, y))))))"

text \<open>The body that the \<^verbatim>\<open>train\<close> methods of the two regressors share, line for line.\<close>

definition regressor_train ::
  "('g, 'c, 'r) sklearn \<Rightarrow> 'g \<Rightarrow> forest_params \<Rightarrow> DataFrame \<Rightarrow> column \<Rightarrow>
   error + 'r \<times> StandardScaler \<times> regression_metrics" where
  "regressor_train sk g params X y =
     and_then (train_test_split_series sk g X y 0.2 (Some 42))
       (\<lambda>(X_train, X_test, y_train, y_test).
     and_then (to_matrix X_train) (\<lambda>M_train.
     and_then (scaler_fit_transform M_train) (\<lambda>(scaler, X_train_scaled).
     and_then (to_matrix X_test) (\<lambda>M_test.
     and_then (scaler_transform scaler M_test) (\<lambda>X_test_scaled.
     and_then (to_numeric y_train) (\<lambda>t_train.
     and_then (regressor_fit sk params (check_random_state (random_state params) g)
                 X_train_scaled t_train) (\<lambda>model.
     let y_pred = regressor_predict sk model X_test_scaled in
     and_then (to_numeric y_test) (\<lambda>t_test.
     and_then (mean_squared_error t_test y_pred) (\<lambda>mse.
     and_then (r2_score t_test y_pred) (\<lambda>r2.
       Inr (model, scaler, \<lparr>r2 = r2, rmse = sqrt mse\<rparr>)))))))))))"

definition rtp_train ::
  "('g, 'c, 'r) sklearn \<Rightarrow> 'g \<Rightarrow> 'r RecoveryTimePredictor \<Rightarrow> DataFrame \<Rightarrow>
   error + 'r RecoveryTimePredictor \<times> regression_metrics" where
  "rtp_train sk g self df =
     and_then (rtp_prepare_data self df) (\<lambda>(X, y).
     and_then (regressor_train sk g (rtp_params self) X y) (\<lambda>(model, scaler, metrics).
       Inr (self\<lparr>rtp_model := Some model, rtp_scaler := Some scaler\<rparr>, metrics)))"

record recovery_prediction =
  recovery_days :: real
  recovery_hours :: real

definition rtp_predict ::
  "('g, 'c, 'r) sklearn \<Rightarrow> 'r RecoveryTimePredictor \<Rightarrow> real list \<Rightarrow>
   error + recovery_prediction" where
  "rtp_predict sk self features =
     (case rtp_scaler self of
        None \<Rightarrow> Inl NotFittedError
      | Some s \<Rightarrow>
          and_then (scaler_transform s [features]) (\<lambda>features_scaled.
            case rtp_model self of
              None \<Rightarrow> Inl NotFittedError
            | Some m \<Rightarrow>
                (case regressor_predict sk m features_scaled of
                   [] \<Rightarrow> Inl IndexError
                 | days # _ \<Rightarrow> Inr \<lparr>recovery_days = days, recovery_hours = days * 24\<rparr>)))"

subsection \<open>WeightProgressionPredictor\<close>

record 'r WeightProgressionPredictor =
  wpp_params :: forest_params
  wpp_model :: "'r option"
  wpp_scaler :: "StandardScaler option"
  wpp_feature_names :: "string list"

definition WeightProgressionPredictor_init :: "'r WeightProgressionPredictor" where
  "WeightProgressionPredictor_init =
     \<lparr>wpp_params = \<lparr>n_estimators = 100, max_depth = 8, min_samples_split = None,
                     random_state = Some 42\<rparr>,
      wpp_model = None,
      wpp_scaler = None,
      wpp_feature_names =
        [''previous_weight'', ''reps_achieved'', ''target_reps'', ''form_quality'']\<rparr>"

definition wpp_prepare_data ::
  "'r WeightProgressionPredictor \<Rightarrow> DataFrame \<Rightarrow> error + DataFrame \<times> column" where
  "wpp_prepare_data self df =
     and_then (getitem df ''successful'') (\<lambda>successful.
     let df_success = getitem_mask df (eq_True successful) in
     and_then (getitem_list df_success (wpp_feature_names self)) (\<lambda>features.
     and_then (median features) (\<lambda>medians.
     and_then (getitem df_success ''weight_increase'') (\<lambda>y.
       Inr (fillna features medians, y)))))"

definition wpp_train ::
  "('g, 'c, 'r) sklearn \<Rightarrow> 'g \<Rightarrow> 'r WeightProgressionPredictor \<Rightarrow> DataFrame \<Rightarrow>
   error + 'r WeightProgressionPredictor \<times> regression_metrics" where
  "wpp_train sk g self df =
     and_then (wpp_prepare_data self df) (\<lambda>(X, y).
     and_then (regressor_train sk g (wpp_params self) X y) (\<lambda>(model, scaler, metrics).
       Inr (self\<lparr>wpp_model := Some model, wpp_scaler := Some scaler\<rparr>, metrics)))"

record progression_prediction =
  recommended_increase :: real
  new_weight :: real

definition wpp_predict ::
  "('g, 'c, 'r) sklearn \<Rightarrow> 'r WeightProgressionPredictor \<Rightarrow> real list \<Rightarrow>
   error + progression_prediction" where
  "wpp_predict sk self features =
     (case wpp_scaler self of
        None \<Rightarrow> Inl NotFittedError
      | Some s \<Rightarrow>
          and_then (scaler_transform s [features]) (\<lambda>features_scaled.
            case wpp_model self of
              None \<Rightarrow> Inl NotFittedError
            | Some m \<Rightarrow>
                (case regressor_predict sk m features_scaled of
                   [] \<Rightarrow> Inl IndexError
                 | increase # _ \<Rightarrow>
                     (case features of
                        [] \<Rightarrow> Inl IndexError
                      | previous_weight # _ \<Rightarrow>
                          Inr \<lparr>recommended_increase = increase,
                               new_weight = previous_weight + increase\<rparr>))))"

subsection \<open>The process: files, console, clock\<close>

text \<open>
  What a run of the script works on. \<open>dirs\<close> and \<open>files\<close> are the directories and the
  file contents, \<open>stdout\<close> the progress lines printed so far (the banner, the line that
  announces a task, the line that confirms a save, the closing line; the metric reports
  that \<^verbatim>\<open>train\<close> prints are left out), \<open>ticks\<close> the number of times the clock was read.
\<close>

type_synonym path = string

datatype task = WorkoutSuccess | RecoveryTime | WeightProgression

datatype message = PipelineBanner | Training task | Saved path | TrainingComplete

record world =
  dirs :: "path list"
  files :: "path \<rightharpoonup> string"
  stdout :: "message list"
  ticks :: nat

definition print_line :: "message \<Rightarrow> world \<Rightarrow> world" where
  "print_line m w = w\<lparr>stdout := stdout w @ [m]\<rparr>"

text \<open>
  What the process finds when it starts and cannot control: the state of the process-wide
  random number generator, and what the clock shows each time it is read
  (\<^verbatim>\<open>datetime.now().isoformat()\<close>).
\<close>

record 'g ambient =
  numpy_rng :: 'g
  clock :: "nat \<Rightarrow> string"

text \<open>The dictionary that \<^verbatim>\<open>save\<close> dumps, key by key.\<close>

datatype ('c, 'r) pyvalue =
    ClassifierV forest_params "'c option"
  | RegressorV forest_params "'r option"
  | ScalerV "StandardScaler option"
  | StrList "string list"
  | Str string

type_synonym ('c, 'r) artifact = "(string \<times> ('c, 'r) pyvalue) list"

text \<open>
  The remaining library code: \<open>pickle\<close> is the byte stream joblib makes of a value, as
  the chunks it writes one after the other; \<open>read_csv\<close> is the table pandas reads at a
  path, or the error raised.
\<close>

record ('c, 'r) external =
  pickle :: "('c, 'r) artifact \<Rightarrow> string list"
  read_csv :: "path \<Rightarrow> error + DataFrame"

text \<open>
  \<^verbatim>\<open>joblib.dump(value, path)\<close> opens the file at \<open>path\<close> for writing, which creates it
  or empties it and raises when its directory does not exist, and writes the pickle into
  it. \<open>joblib_dump_steps\<close> lists the states the files go through, one per write; the
  last of them is the state when the dump returns.
\<close>

definition dirname :: "path \<Rightarrow> path" where
  "dirname p = rev (drop 1 (dropWhile (\<lambda>c. c \<noteq> CHR ''/'') (rev p)))"

definition destination_ok :: "path \<Rightarrow> world \<Rightarrow> bool" where
  "destination_ok p w \<longleftrightarrow> dirname p = [] \<or> dirname p \<in> set (dirs w)"

definition open_wb :: "path \<Rightarrow> world \<Rightarrow> error + world" where
  "open_wb p w =
     (if destination_ok p w then Inr (w\<lparr>files := (files w)(p \<mapsto> [])\<rparr>) else Inl OSError)"

definition file_write :: "path \<Rightarrow> string \<Rightarrow> world \<Rightarrow> world" where
  "file_write p chunk w =
     w\<lparr>files := (files w)(p \<mapsto> (case files w p of None \<Rightarrow> [] | Some old \<Rightarrow> old) @ chunk)\<rparr>"

fun write_chunks :: "path \<Rightarrow> string list \<Rightarrow> world \<Rightarrow> world list" where
  "write_chunks p [] w = []"
| "write_chunks p (chunk # chunks) w = file_write p chunk w # write_chunks p chunks (file_write p chunk w)"

definition joblib_dump_steps ::
  "('c, 'r) external \<Rightarrow> ('c, 'r) artifact \<Rightarrow> path \<Rightarrow> world \<Rightarrow> error + world list" where
  "joblib_dump_steps ex v p w =
     and_then (open_wb p w) (\<lambda>opened. Inr (opened # write_chunks p (pickle ex v) opened))"

text \<open>Reading the clock.\<close>

definition now :: "'g ambient \<Rightarrow> world \<Rightarrow> string \<times> world" where
  "now amb w = (clock amb (ticks w), w\<lparr>ticks := Suc (ticks w)\<rparr>)"

subsection \<open>save\<close>

text \<open>
  The three \<^verbatim>\<open>save\<close> methods. For each, \<open>_artifact\<close> is the dictionary it builds,
  \<open>_save_steps\<close> the states of the files while joblib writes it, and \<open>_save\<close> the method
  as a whole, with its closing line on the console.
\<close>

definition wsp_artifact :: "'c WorkoutSuccessPredictor \<Rightarrow> string \<Rightarrow> ('c, 'r) artifact" where
  "wsp_artifact self trained_at =
     [(''model'', ClassifierV (wsp_params self) (wsp_model self)),
      (''scaler'', ScalerV (wsp_scaler self)),
      (''feature_names'', StrList (wsp_feature_names self)),
      (''trained_at'', Str trained_at)]"

definition wsp_save_steps ::
  "('c, 'r) external \<Rightarrow> 'g ambient \<Rightarrow> 'c WorkoutSuccessPredictor \<Rightarrow> path \<Rightarrow> world \<Rightarrow>
   error + world list" where
  "wsp_save_steps ex amb self p w =
     (let (trained_at, w') = now amb w
      in joblib_dump_steps ex (wsp_artifact self trained_at) p w')"

definition wsp_save ::
  "('c, 'r) external \<Rightarrow> 'g ambient \<Rightarrow> 'c WorkoutSuccessPredictor \<Rightarrow> path \<Rightarrow> world \<Rightarrow>
   error + world" where
  "wsp_save ex amb self p w =
     and_then (wsp_save_steps ex amb self p w) (\<lambda>steps. Inr (print_line (Saved p) (last steps)))"

definition rtp_artifact :: "'r RecoveryTimePredictor \<Rightarrow> string \<Rightarrow> ('c, 'r) artifact" where
  "rtp_artifact self trained_at =
     [(''model'', RegressorV (rtp_params self) (rtp_model self)),
      (''scaler'', ScalerV (rtp_scaler self)),
      (''feature_names'', StrList (rtp_feature_names self)),
      (''muscle_groups'', StrList (rtp_muscle_groups self)),
      (''trained_at'', Str trained_at)]"

definition rtp_save_steps ::
  "('c, 'r) external \<Rightarrow> 'g ambient \<Rightarrow> 'r RecoveryTimePredictor \<Rightarrow> path \<Rightarrow> world \<Rightarrow>
   error + world list" where
  "rtp_save_steps ex amb self p w =
     (let (trained_at, w') = now amb w
      in joblib_dump_steps ex (rtp_artifact self trained_at) p w')"

definition rtp_save ::
  "('c, 'r) external \<Rightarrow> 'g ambient \<Rightarrow> 'r RecoveryTimePredictor \<Rightarrow> path \<Rightarrow> world \<Rightarrow>
   error + world" where
  "rtp_save ex amb self p w =
     and_then (rtp_save_steps ex amb self p w) (\<lambda>steps. Inr (print_line (Saved p) (last steps)))"

definition wpp_artifact :: "'r WeightProgressionPredictor \<Rightarrow> string \<Rightarrow> ('c, 'r) artifact" where
  "wpp_artifact self trained_at =
     [(''model'', RegressorV (wpp_params self) (wpp_model self)),
      (''scaler'', ScalerV (wpp_scaler self)),
      (''feature_names'', StrList (wpp_feature_names self)),
      (''trained_at'', Str trained_at)]"

definition wpp_save_steps ::
  "('c, 'r) external \<Rightarrow> 'g ambient \<Rightarrow> 'r WeightProgressionPredictor \<Rightarrow> path \<Rightarrow> world \<Rightarrow>
   error + world list" where
  "wpp_save_steps ex amb self p w =
     (let (trained_at, w') = now amb w
      in joblib_dump_steps ex (wpp_artifact self trained_at) p w')"

definition wpp_save ::
  "('c, 'r) external \<Rightarrow> 'g ambient \<Rightarrow> 'r WeightProgressionPredictor \<Rightarrow> path \<Rightarrow> world \<Rightarrow>
   error + world" where
  "wpp_save ex amb self p w =
     and_then (wpp_save_steps ex amb self p w) (\<lambda>steps. Inr (print_line (Saved p) (last steps)))"

subsection \<open>The training script\<close>

text \<open>
  Each of the three functions announces its task, loads the table, trains a new predictor
  and saves it at the default path of its \<^verbatim>\<open>save\<close>. An exception leaves the function
  at once; the model returns the state of the process at that moment beside it.
\<close>

definition train_workout_success_model ::
  "('g, 'c, 'r) sklearn \<Rightarrow> ('c, 'r) external \<Rightarrow> 'g ambient \<Rightarrow> path \<Rightarrow> world \<Rightarrow>
   world \<times> (error + 'c WorkoutSuccessPredictor \<times> success_metrics)" where
  "train_workout_success_model sk ex amb data_path w =
     (let w1 = print_line (Training WorkoutSuccess) w in
      case read_csv ex data_path of
        Inl e \<Rightarrow> (w1, Inl e)
      | Inr df \<Rightarrow>
          (case wsp_train sk (numpy_rng amb) WorkoutSuccessPredictor_init df of
             Inl e \<Rightarrow> (w1, Inl e)
           | Inr (predictor, metrics) \<Rightarrow>
               (case wsp_save ex amb predictor ''models/workout_success_model.pkl'' w1 of
                  Inl e \<Rightarrow> (w1, Inl e)
                | Inr w2 \<Rightarrow> (w2, Inr (predictor, metrics)))))"

definition train_recovery_model ::
  "('g, 'c, 'r) sklearn \<Rightarrow> ('c, 'r) external \<Rightarrow> 'g ambient \<Rightarrow> path \<Rightarrow> world \<Rightarrow>
   world \<times> (error + 'r RecoveryTimePredictor \<times> regression_metrics)" where
  "train_recovery_model sk ex amb data_path w =
     (let w1 = print_line (Training RecoveryTime) w in
      case read_csv ex data_path of
        Inl e \<Rightarrow> (w1, Inl e)
      | Inr df \<Rightarrow>
          (case rtp_train sk (numpy_rng amb) RecoveryTimePredictor_init df of
             Inl e \<Rightarrow> (w1, Inl e)
           | Inr (predictor, metrics) \<Rightarrow>
               (case rtp_save ex amb predictor ''models/recovery_time_model.pkl'' w1 of
                  Inl e \<Rightarrow> (w1, Inl e)
                | Inr w2 \<Rightarrow> (w2, Inr (predictor, metrics)))))"

definition train_progression_model ::
  "('g, 'c, 'r) sklearn \<Rightarrow> ('c, 'r) external \<Rightarrow> 'g ambient \<Rightarrow> path \<Rightarrow> world \<Rightarrow>
   world \<times> (error + 'r WeightProgressionPredictor \<times> regression_metrics)" where
  "train_progression_model sk ex amb data_path w =
     (let w1 = print_line (Training WeightProgression) w in
      case read_csv ex data_path of
        Inl e \<Rightarrow> (w1, Inl e)
      | Inr df \<Rightarrow>
          (case wpp_train sk (numpy_rng amb) WeightProgressionPredictor_init df of
             Inl e \<Rightarrow> (w1, Inl e)
           | Inr (predictor, metrics) \<Rightarrow>
               (case wpp_save ex amb predictor ''models/weight_progression_model.pkl'' w1 of
                  Inl e \<Rightarrow> (w1, Inl e)
                | Inr w2 \<Rightarrow> (w2, Inr (predictor, metrics)))))"

text \<open>
  The main block. \<^verbatim>\<open>argparse\<close> rejects a model that is not among the choices; then
  the three \<^verbatim>\<open>if\<close> statements run in order, and nothing catches an exception.
\<close>

record arguments =
  arg_model :: string
  arg_data :: path

definition run_task :: "world \<times> (error + 'a) \<Rightarrow> world \<times> (error + unit)" where
  "run_task r = (case r of (w, Inl e) \<Rightarrow> (w, Inl e) | (w, Inr _) \<Rightarrow> (w, Inr ()))"

definition main ::
  "('g, 'c, 'r) sklearn \<Rightarrow> ('c, 'r) external \<Rightarrow> 'g ambient \<Rightarrow> arguments \<Rightarrow> world \<Rightarrow>
   world \<times> (error + unit)" where
  "main sk ex amb args w =
     (if arg_model args \<notin> set [''workout_success'', ''recovery_time'', ''weight_progression'',
                                ''all'']
      then (w, Inl SystemExit)
      else
        let w0 = print_line PipelineBanner w in
        case (if arg_model args = ''workout_success'' \<or> arg_model args = ''all''
              then run_task (train_workout_success_model sk ex amb (arg_data args) w0)
              else (w0, Inr ())) of
          (w1, Inl e) \<Rightarrow> (w1, Inl e)
        | (w1, Inr _) \<Rightarrow>
            (case (if arg_model args = ''recovery_time'' \<or> arg_model args = ''all''
                   then run_task (train_recovery_model sk ex amb (arg_data args) w1)
                   else (w1, Inr ())) of
               (w2, Inl e) \<Rightarrow> (w2, Inl e)
             | (w2, Inr _) \<Rightarrow>
                 (case (if arg_model args = ''weight_progression'' \<or> arg_model args = ''all''
                        then run_task (train_progression_model sk ex amb (arg_data args) w2)
                        else (w2, Inr ())) of
                    (w3, Inl e) \<Rightarrow> (w3, Inl e)
                  | (w3, Inr _) \<Rightarrow> (print_line TrainingComplete w3, Inr ()))))"

subsection \<open>What a reader of the destination can see during a save\<close>

text \<open>
  \<open>never_partial p full w steps\<close>: in every state of \<open>steps\<close> the file at \<open>p\<close> is either
  what it was in \<open>w\<close> or the complete content \<open>full\<close>. \<open>grows_to p chunks w steps\<close>: the
  file at \<open>p\<close> starts empty, holds the first chunks of \<open>chunks\<close> in every state and all
  of them in the last, and no other file differs from \<open>w\<close>.
\<close>

definition never_partial :: "path \<Rightarrow> string \<Rightarrow> world \<Rightarrow> world list \<Rightarrow> bool" where
  "never_partial p full w steps =
     list_all (\<lambda>w'. files w' p = files w p \<or> files w' p = Some full) steps"

definition grows_to :: "path \<Rightarrow> string list \<Rightarrow> world \<Rightarrow> world list \<Rightarrow> bool" where
  "grows_to p chunks w steps \<longleftrightarrow>
     steps \<noteq> []
     \<and> files (hd steps) p = Some []
     \<and> files (last steps) p = Some (concat chunks)
     \<and> (\<forall>w' \<in> set steps.
           (\<exists>n. files w' p = Some (concat (take n chunks)))
           \<and> (\<forall>q. q \<noteq> p \<longrightarrow> files w' q = files w q))"

subsection \<open>prepare_data on shared column buffers\<close>

text \<open>
  Whether \<^verbatim>\<open>prepare_data\<close> touches its argument, and whether what it returns shares
  memory with it, cannot be told from values alone. Here a data frame is an object: the
  list of its labels, each with the address of the buffer that holds the column. The
  store maps addresses to columns; \<open>lim\<close> is the next free address.

  The pandas operations, as pandas (before copy-on-write) performs them: selecting a list
  of labels, \<^verbatim>\<open>fillna\<close>, \<^verbatim>\<open>astype\<close>, \<^verbatim>\<open>get_dummies\<close>, \<^verbatim>\<open>concat\<close>, selecting
  with a boolean mask and \<^verbatim>\<open>copy\<close> put their result into new buffers; \<^verbatim>\<open>df[name]\<close>
  with a single label returns the series that sits on the frame's own buffer. Each
  operation computes the values that the value-level definition above gives.
\<close>

type_synonym addr = nat

record store =
  cells :: "addr \<rightharpoonup> column"
  lim :: addr

type_synonym frame_object = "(string \<times> addr) list"

definition column_at :: "store \<Rightarrow> addr \<Rightarrow> column" where
  "column_at st a = (case cells st a of None \<Rightarrow> NumCol [] | Some c \<Rightarrow> c)"

definition load_frame :: "store \<Rightarrow> frame_object \<Rightarrow> DataFrame" where
  "load_frame st fr = map (\<lambda>(name, a). (name, column_at st a)) fr"

definition alloc :: "column \<Rightarrow> store \<Rightarrow> addr \<times> store" where
  "alloc c st = (lim st, st\<lparr>cells := (cells st)(lim st \<mapsto> c), lim := Suc (lim st)\<rparr>)"

fun alloc_frame :: "DataFrame \<Rightarrow> store \<Rightarrow> frame_object \<times> store" where
  "alloc_frame [] st = ([], st)"
| "alloc_frame ((name, c) # df) st =
     (let (a, st1) = alloc c st;
          (rest, st2) = alloc_frame df st1
      in ((name, a) # rest, st2))"

definition h_getitem :: "frame_object \<Rightarrow> string \<Rightarrow> error + addr" where
  "h_getitem fr name = (case map_of fr name of None \<Rightarrow> Inl (KeyError name) | Some a \<Rightarrow> Inr a)"

definition h_getitem_list ::
  "frame_object \<Rightarrow> string list \<Rightarrow> store \<Rightarrow> error + frame_object \<times> store" where
  "h_getitem_list fr names st =
     and_then (getitem_list (load_frame st fr) names) (\<lambda>df. Inr (alloc_frame df st))"

definition h_median :: "frame_object \<Rightarrow> store \<Rightarrow> error + (string \<times> real option) list" where
  "h_median fr st = median (load_frame st fr)"

definition h_fillna ::
  "frame_object \<Rightarrow> (string \<times> real option) list \<Rightarrow> store \<Rightarrow> frame_object \<times> store" where
  "h_fillna fr values st = alloc_frame (fillna (load_frame st fr) values) st"

definition int_column :: "int list \<Rightarrow> column" where
  "int_column ys = NumCol (map (\<lambda>i. Some (real_of_int i)) ys)"

definition h_astype_int :: "addr \<Rightarrow> store \<Rightarrow> error + addr \<times> store" where
  "h_astype_int a st =
     and_then (astype_int (column_at st a)) (\<lambda>ys. Inr (alloc (int_column ys) st))"

definition h_get_dummies :: "addr \<Rightarrow> string \<Rightarrow> store \<Rightarrow> error + frame_object \<times> store" where
  "h_get_dummies a prefix st =
     and_then (get_dummies (column_at st a) prefix) (\<lambda>df. Inr (alloc_frame df st))"

definition h_concat :: "frame_object \<Rightarrow> frame_object \<Rightarrow> store \<Rightarrow> frame_object \<times> store" where
  "h_concat fr1 fr2 st =
     alloc_frame (concat_columns (load_frame st fr1) (load_frame st fr2)) st"

definition h_eq_True :: "addr \<Rightarrow> store \<Rightarrow> bool list" where
  "h_eq_True a st = eq_True (column_at st a)"

definition h_getitem_mask :: "frame_object \<Rightarrow> bool list \<Rightarrow> store \<Rightarrow> frame_object \<times> store" where
  "h_getitem_mask fr sel st = alloc_frame (getitem_mask (load_frame st fr) sel) st"

definition h_copy :: "frame_object \<Rightarrow> store \<Rightarrow> frame_object \<times> store" where
  "h_copy fr st = alloc_frame (load_frame st fr) st"

text \<open>
  The three \<^verbatim>\<open>prepare_data\<close> methods, operation by operation in the order Python
  evaluates them (the frame that \<^verbatim>\<open>fillna\<close> is called on first, its argument second).
\<close>

definition h_wsp_prepare_data ::
  "'c WorkoutSuccessPredictor \<Rightarrow> frame_object \<Rightarrow> store \<Rightarrow>
   error + (frame_object \<times> addr) \<times> store" where
  "h_wsp_prepare_data self df st =
     and_then (h_getitem_list df (wsp_feature_names self) st) (\<lambda>(features, st1).
     and_then (h_getitem_list df (wsp_feature_names self) st1) (\<lambda>(features', st2).
     and_then (h_median features' st2) (\<lambda>medians.
     case h_fillna features medians st2 of (X, st3) \<Rightarrow>
     and_then (h_getitem df ''workout_completed'') (\<lambda>completed.
     and_then (h_astype_int completed st3) (\<lambda>(y, st4).
       Inr ((X, y), st4))))))"

definition h_rtp_prepare_data ::
  "'r RecoveryTimePredictor \<Rightarrow> frame_object \<Rightarrow> store \<Rightarrow>
   error + (frame_object \<times> addr) \<times> store" where
  "h_rtp_prepare_data self df st =
     and_then (h_getitem df ''muscle_group'') (\<lambda>muscle_group.
     and_then (h_get_dummies muscle_group ''muscle'' st) (\<lambda>(muscle_dummies, st1).
     and_then (h_getitem_list df (rtp_feature_names self) st1) (\<lambda>(features, st2).
     and_then (h_getitem_list df (rtp_feature_names self) st2) (\<lambda>(features', st3).
     and_then (h_median features' st3) (\<lambda>medians.
     case h_fillna features medians st3 of (filled, st4) \<Rightarrow>
     case h_concat filled muscle_dummies st4 of (X, st5) \<Rightarrow>
     and_then (h_getitem df ''actual_recovery_days'') (\<lambda>y.
       Inr ((X, y), st5)))))))"

definition h_wpp_prepare_data ::
  "'r WeightProgressionPredictor \<Rightarrow> frame_object \<Rightarrow> store \<Rightarrow>
   error + (frame_object \<times> addr) \<times> store" where
  "h_wpp_prepare_data self df st =
     and_then (h_getitem df ''successful'') (\<lambda>successful.
     case h_getitem_mask df (h_eq_True successful st) st of (selected, st1) \<Rightarrow>
     case h_copy selected st1 of (df_success, st2) \<Rightarrow>
     and_then (h_getitem_list df_success (wpp_feature_names self) st2) (\<lambda>(features, st3).
     and_then (h_getitem_list df_success (wpp_feature_names self) st3) (\<lambda>(features', st4).
     and_then (h_median features' st4) (\<lambda>medians.
     case h_fillna features medians st4 of (X, st5) \<Rightarrow>
     and_then (h_getitem df_success ''weight_increase'') (\<lambda>y.
       Inr ((X, y), st5))))))"

text \<open>
  \<open>allocated st fr\<close>: the buffers of \<open>fr\<close> exist in \<open>st\<close>. \<open>unchanged st st'\<close>: every
  buffer that exists in \<open>st\<close> holds the same column in \<open>st'\<close>. \<open>fresh st fr\<close>: no buffer
  of \<open>fr\<close> existed in \<open>st\<close>.
\<close>

definition allocated :: "store \<Rightarrow> frame_object \<Rightarrow> bool" where
  "allocated st fr = list_all (\<lambda>(name, a). a < lim st) fr"

definition unchanged :: "store \<Rightarrow> store \<Rightarrow> bool" where
  "unchanged st st' \<longleftrightarrow> lim st \<le> lim st' \<and> (\<forall>a < lim st. cells st' a = cells st a)"

definition fresh :: "store \<Rightarrow> frame_object \<Rightarrow> bool" where
  "fresh st fr = list_all (\<lambda>(name, a). lim st \<le> a) fr"

definition empty_store :: store where
  "empty_store = \<lparr>cells = Map.empty, lim = 0\<rparr>"

subsection \<open>Which tasks a run has attempted\<close>

text \<open>A task has been attempted when the line that announces it is on the console.\<close>

definition attempted :: "task \<Rightarrow> world \<Rightarrow> bool" where
  "attempted t w \<longleftrightarrow> Training t \<in> set (stdout w)"

subsection \<open>What imputation with a median means\<close>

text \<open>
  \<open>imputed_from ref src X name\<close>: the column \<open>name\<close> of \<open>X\<close> is the column \<open>name\<close> of
  \<open>src\<close> with each missing entry replaced by the median of the column \<open>name\<close> of \<open>ref\<close>.
\<close>

definition imputed_from :: "DataFrame \<Rightarrow> DataFrame \<Rightarrow> DataFrame \<Rightarrow> string \<Rightarrow> bool" where
  "imputed_from ref src X name =
     (case getitem ref name of
        Inl _ \<Rightarrow> False
      | Inr r \<Rightarrow>
          (case column_median r of
             Inl _ \<Rightarrow> False
           | Inr m \<Rightarrow>
               (case getitem src name of
                  Inl _ \<Rightarrow> False
                | Inr c \<Rightarrow> getitem X name = Inr (fillna_column m c))))"

subsection \<open>Example datasets\<close>

definition success_data :: DataFrame where
  "success_data =
     [(''sleep_hours'', NumCol [Some 7, None, Some 8, Some 6, Some 9]),
      (''sleep_quality'', NumCol [Some 3, Some 4, Some 5, Some 2, Some 4]),
      (''calories'', NumCol [Some 2000, Some 2200, Some 2500, Some 1800, Some 2100]),
      (''protein'', NumCol [Some 100, Some 120, Some 150, Some 80, Some 110]),
      (''fatigue_score'', NumCol [Some 5, Some 3, Some 2, Some 8, Some 4]),
      (''days_since_rest'', NumCol [Some 1, Some 2, Some 3, Some 4, Some 1]),
      (''planned_volume'', NumCol [Some 5000, Some 6000, Some 5500, Some 7000, Some 4000]),
      (''readiness_score'', NumCol [Some 70, Some 80, Some 90, Some 40, Some 75]),
      (''injury_risk_score'', NumCol [Some 10, Some 20, Some 5, Some 60, Some 15]),
      (''workout_completed'', NumCol [Some 0, Some 1, Some 1, Some 1, Some 0])]"

definition recovery_data :: DataFrame where
  "recovery_data =
     [(''workout_volume'', NumCol [Some 5000, None, Some 7000, Some 4000, Some 6000]),
      (''workout_intensity'', NumCol [Some 7, Some 8, Some 9, Some 5, Some 6]),
      (''sleep_quality'', NumCol [Some 3, Some 4, Some 5, Some 2, Some 4]),
      (''nutrition_quality'', NumCol [Some 4, Some 4, Some 3, Some 5, Some 2]),
      (''muscle_group'', StrCol [Some ''legs'', Some ''chest'', Some ''legs'', Some ''glutes'',
                                Some ''chest'']),
      (''actual_recovery_days'', NumCol [Some 3, Some 2, Some 4, Some 1, Some 2])]"

definition progression_data :: DataFrame where
  "progression_data =
     [(''previous_weight'', NumCol [None, Some 10, Some 100]),
      (''reps_achieved'', NumCol [Some 8, Some 10, Some 4]),
      (''target_reps'', NumCol [Some 8, Some 8, Some 8]),
      (''form_quality'', NumCol [Some 4, Some 5, Some 2]),
      (''successful'', BoolCol [True, True, False]),
      (''weight_increase'', NumCol [Some (5 / 2), Some 5, Some 0])]"

definition progression_columns :: DataFrame where
  "progression_columns =
     [(''previous_weight'', NumCol [Some 50, Some 60, None, Some 80, Some 40]),
      (''reps_achieved'', NumCol [Some 8, Some 10, Some 9, Some 4, Some 8]),
      (''target_reps'', NumCol [Some 8, Some 8, Some 8, Some 8, Some 8]),
      (''form_quality'', NumCol [Some 4, Some 5, Some 4, Some 2, Some 3]),
      (''successful'', BoolCol [True, True, True, False, True]),
      (''weight_increase'', NumCol [Some (5 / 2), Some 5, Some (5 / 2), Some 0, Some 5])]"

subsection \<open>A stand-in for the library\<close>

text \<open>
  To run the model on concrete data the library parameters need values. The stand-in
  splits without shuffling (the first \<open>\<lceil>test_size * n\<rceil>\<close> rows are the test rows), its
  classifier predicts the frequency of label 1 among the training targets, and its
  regressor predicts the mean of the training targets. Its pickler writes one chunk per
  key of the dictionary. Three paths hold the example datasets, one the columns of the
  success and the recovery task side by side, and one the columns of all three tasks.
\<close>

definition stub_sklearn :: "(unit, real, real) sklearn" where
  "stub_sklearn =
     \<lparr>split_indices = (\<lambda>rng test_size n.
        let n_test = nat \<lceil>test_size * real n\<rceil>
        in if n \<le> n_test then Inl ValueError else Inr ([n_test..<n], [0..<n_test])),
      classifier_fit = (\<lambda>params rng X y.
        if y = [] then Inl ValueError
        else Inr (real (length (filter (\<lambda>l. l = 1) y)) / real (length y))),
      classifier_predict = (\<lambda>m X. map (\<lambda>_. if m > 1 / 2 then 1 else 0) X),
      classifier_predict_proba = (\<lambda>m X. map (\<lambda>_. [1 - m, m]) X),
      classifier_importances = (\<lambda>m. replicate 9 (1 / 9)),
      regressor_fit = (\<lambda>params rng X y. if y = [] then Inl ValueError else Inr (mean y)),
      regressor_predict = (\<lambda>m X. map (\<lambda>_. m) X)\<rparr>"

text \<open>
  A second stand-in, whose split does shuffle: it rotates the rows by a number taken from
  the generator it is given.
\<close>

definition rotating_split :: "nat rng \<Rightarrow> real \<Rightarrow> nat \<Rightarrow> error + nat list \<times> nat list" where
  "rotating_split r test_size n =
     (let k = (case r of Seeded seed \<Rightarrow> nat seed | Global g \<Rightarrow> g);
          idx = rotate k [0..<n];
          n_test = nat \<lceil>test_size * real n\<rceil>
      in if n \<le> n_test then Inl ValueError else Inr (drop n_test idx, take n_test idx))"

definition rotating_sklearn :: "(nat, real, real) sklearn" where
  "rotating_sklearn =
     \<lparr>split_indices = rotating_split,
      classifier_fit = (\<lambda>params rng X y. Inr 0),
      classifier_predict = (\<lambda>m X. map (\<lambda>_. 0) X),
      classifier_predict_proba = (\<lambda>m X. map (\<lambda>_. [1, 0]) X),
      classifier_importances = (\<lambda>m. []),
      regressor_fit = (\<lambda>params rng X y. Inr 0),
      regressor_predict = (\<lambda>m X. map (\<lambda>_. 0) X)\<rparr>"

definition undecided_predictor :: "real WorkoutSuccessPredictor" where
  "undecided_predictor =
     WorkoutSuccessPredictor_init
       \<lparr>wsp_model := Some (1 / 2),
        wsp_scaler := Some \<lparr>scaler_mean = replicate 9 0, scaler_scale = replicate 9 1\<rparr>\<rparr>"

definition confident_predictor :: "real WorkoutSuccessPredictor" where
  "confident_predictor =
     WorkoutSuccessPredictor_init
       \<lparr>wsp_model := Some (9 / 10),
        wsp_scaler := Some \<lparr>scaler_mean = replicate 9 0, scaler_scale = replicate 9 1\<rparr>\<rparr>"

definition stub_external :: "(real, real) external" where
  "stub_external =
     \<lparr>pickle = (\<lambda>a. map fst a),
      read_csv = (\<lambda>p.
        if p = ''success.csv'' then Inr success_data
        else if p = ''recovery.csv'' then Inr recovery_data
        else if p = ''progression.csv'' then Inr progression_data
        else if p = ''sessions.csv'' then Inr (success_data @ recovery_data)
        else if p = ''all.csv'' then Inr (success_data @ recovery_data @ progression_columns)
        else Inl OSError)\<rparr>"

definition ambient0 :: "unit ambient" where
  "ambient0 = \<lparr>numpy_rng = (), clock = (\<lambda>n. ''2025-01-01T00:00:00'')\<rparr>"

definition world0 :: world where
  "world0 = \<lparr>dirs = [''models''], files = Map.empty, stdout = [], ticks = 0\<rparr>"

section \<open>Properties\<close>

subsection \<open>Errors propagate\<close>

lemma and_then_Inr [simp]: "and_then (Inr x) f = f x"
  by (simp add: and_then_def)

lemma and_then_Inl [simp]: "and_then (Inl e) f = Inl e"
  by (simp add: and_then_def)

lemma and_then_eq_Inr:
  "and_then r f = Inr y \<longleftrightarrow> (\<exists>x. r = Inr x \<and> f x = Inr y)"
  by (cases r) simp_all

subsection \<open>The decision rule of the classifier\<close>

text \<open>
  C2. For every feature vector that the fitted scaler accepts, let \<open>row\<close> be the first
  row of what \<^verbatim>\<open>predict_proba\<close> of the fitted classifier returns on the scaled vector.
  When \<open>row\<close> has an entry 1, the class-1 probability, \<^verbatim>\<open>predict\<close> returns a result:
  its \<open>probability\<close> is that entry, its \<open>will_complete\<close> is true exactly when the entry is
  strictly greater than 0.5, and its \<open>confidence\<close> is \<open>|entry - 0.5| * 2\<close>; at an entry of
  exactly 0.5 \<open>will_complete\<close> is false and \<open>confidence\<close> is 0.
\<close>

theorem wsp_predict_decision_rule:
  assumes "wsp_scaler self = Some s" and "wsp_model self = Some m"
    and "scaler_transform s [features] = Inr features_scaled"
    and "classifier_predict_proba sk m features_scaled = row # rest"
    and "1 < length row"
  shows "\<exists>r. wsp_predict sk self features = Inr r
           \<and> probability r = row ! 1
           \<and> (will_complete r \<longleftrightarrow> row ! 1 > 0.5)
           \<and> confidence r = \<bar>row ! 1 - 0.5\<bar> * 2
           \<and> (row ! 1 = 0.5 \<longrightarrow> \<not> will_complete r \<and> confidence r = 0)"
  using assms by (simp add: wsp_predict_def wsp_probability_def)

theorem wsp_predict_decision_rule_witness:
  "(\<exists>r. wsp_predict stub_sklearn undecided_predictor [8, 7, 2200, 120, 3, 2, 5000, 80, 10]
           = Inr r
      \<and> probability r = 1 / 2 \<and> \<not> will_complete r \<and> confidence r = 0)
   \<and> (\<exists>r. wsp_predict stub_sklearn confident_predictor [8, 7, 2200, 120, 3, 2, 5000, 80, 10]
           = Inr r
      \<and> probability r = 9 / 10 \<and> will_complete r \<and> confidence r = 4 / 5)"
proof -
  let ?s = "\<lparr>scaler_mean = replicate 9 0, scaler_scale = replicate 9 1\<rparr>"
  let ?x = "[8, 7, 2200, 120, 3, 2, 5000, 80, 10] :: real list"
  have t: "scaler_transform ?s [?x] = Inr [?x]"
    by (simp add: scaler_transform_def rectangular_def scale_row_def eval_nat_numeral)
  have u: "wsp_scaler undecided_predictor = Some ?s" "wsp_model undecided_predictor = Some (1 / 2)"
    by (simp_all add: undecided_predictor_def)
  have c: "wsp_scaler confident_predictor = Some ?s" "wsp_model confident_predictor = Some (9 / 10)"
    by (simp_all add: confident_predictor_def)
  have pu: "classifier_predict_proba stub_sklearn (1 / 2) [?x] = [1 / 2, 1 / 2] # []"
    by (simp add: stub_sklearn_def)
  have pc: "classifier_predict_proba stub_sklearn (9 / 10) [?x] = [1 / 10, 9 / 10] # []"
    by (simp add: stub_sklearn_def)
  have l: "1 < length [1 / 2, 1 / 2 :: real]" "1 < length [1 / 10, 9 / 10 :: real]"
    by simp_all
  from wsp_predict_decision_rule [OF u t pu l(1)]
  have a: "\<exists>r. wsp_predict stub_sklearn undecided_predictor ?x = Inr r
      \<and> probability r = 1 / 2 \<and> \<not> will_complete r \<and> confidence r = 0"
    by auto
  from wsp_predict_decision_rule [OF c t pc l(2)]
  have b: "\<exists>r. wsp_predict stub_sklearn confident_predictor ?x = Inr r
      \<and> probability r = 9 / 10 \<and> will_complete r \<and> confidence r = 4 / 5"
    by auto
  from a b show ?thesis by blast
qed

subsection \<open>Standardization\<close>

lemma sum_list_divide:
  "sum_list (map (\<lambda>x. f x / s) xs) = sum_list (map f xs) / (s::real)"
  by (induction xs) (simp_all add: add_divide_distrib)

lemma sum_list_shift:
  "sum_list (map (\<lambda>x. x - c) xs) = sum_list xs - real (length xs) * (c::real)"
  by (induction xs) (simp_all add: algebra_simps)

lemma sum_list_standardize:
  "sum_list (map (\<lambda>x. (x - c) / s) xs) = (sum_list xs - real (length xs) * c) / (s::real)"
  by (simp add: sum_list_divide sum_list_shift)

lemma mean_standardize:
  assumes "xs \<noteq> []"
  shows "mean (map (\<lambda>x. (x - mean xs) / s) xs) = 0"
  using assms by (simp add: mean_def sum_list_standardize)

lemma variance_nonneg: "0 \<le> variance xs"
  unfolding variance_def mean_def
  by (intro divide_nonneg_nonneg sum_list_nonneg) auto

lemma variance_zero_constant:
  assumes "variance xs = 0" and "x \<in> set xs"
  shows "x = mean xs"
proof -
  from assms(2) have ne: "xs \<noteq> []" by auto
  have "sum_list (map (\<lambda>x. (x - mean xs)\<^sup>2) xs) = 0"
    using assms(1) ne by (simp add: variance_def mean_def[of "map _ _"])
  moreover have "\<And>y. y \<in> set (map (\<lambda>x. (x - mean xs)\<^sup>2) xs) \<Longrightarrow> 0 \<le> y" by auto
  ultimately have "\<forall>y \<in> set (map (\<lambda>x. (x - mean xs)\<^sup>2) xs). y = 0"
    using sum_list_nonneg_eq_0_iff by blast
  with assms(2) show ?thesis by auto
qed

lemma variance_standardize:
  assumes "xs \<noteq> []" and "s \<noteq> 0"
  shows "variance (map (\<lambda>x. (x - mean xs) / s) xs) = variance xs / s\<^sup>2"
proof -
  have "variance (map (\<lambda>x. (x - mean xs) / s) xs)
      = mean (map (\<lambda>x. ((x - mean xs) / s)\<^sup>2) xs)"
    by (simp add: variance_def[of "map _ _"] mean_standardize[OF assms(1)] comp_def)
  also have "\<dots> = sum_list (map (\<lambda>x. (x - mean xs)\<^sup>2 / s\<^sup>2) xs) / real (length xs)"
    by (simp add: mean_def power_divide)
  also have "sum_list (map (\<lambda>x. (x - mean xs)\<^sup>2 / s\<^sup>2) xs)
      = sum_list (map (\<lambda>x. (x - mean xs)\<^sup>2) xs) / s\<^sup>2"
    by (rule sum_list_divide)
  finally show ?thesis by (simp add: variance_def mean_def)
qed

lemma std_standardize:
  assumes "xs \<noteq> []" and "variance xs \<noteq> 0"
  shows "std (map (\<lambda>x. (x - mean xs) / column_scale xs) xs) = 1"
proof -
  have pos: "0 < variance xs" using variance_nonneg[of xs] assms(2) by simp
  have s: "column_scale xs = sqrt (variance xs)" using assms(2) by (simp add: column_scale_def std_def)
  have "variance (map (\<lambda>x. (x - mean xs) / column_scale xs) xs) = variance xs / (sqrt (variance xs))\<^sup>2"
    using pos by (simp add: s variance_standardize[OF assms(1)])
  also have "\<dots> = 1" using pos by simp
  finally show ?thesis by (simp add: std_def)
qed

lemma scale_row_nth:
  assumes "j < length row" "length row = length (scaler_mean s)" "length (scaler_scale s) = length (scaler_mean s)"
  shows "scale_row s row ! j = (row ! j - scaler_mean s ! j) / scaler_scale s ! j"
  using assms by (simp add: scale_row_def)

lemma column_transform:
  assumes "rectangular d X" "j < d" "length (scaler_mean s) = d" "length (scaler_scale s) = d"
  shows "column j (map (scale_row s) X) = map (\<lambda>x. (x - scaler_mean s ! j) / scaler_scale s ! j) (column j X)"
  using assms by (auto simp: column_def rectangular_def list_all_iff scale_row_nth)


lemma std_zero_iff: "std xs = 0 \<longleftrightarrow> variance xs = 0"
  by (simp add: std_def)

text \<open>
  C1. The scaler fitted on a training matrix (at least one row, every row with \<open>d\<close>
  entries) and applied to that matrix gives, in every column, mean 0; the standard
  deviation of the column is 1, except that a constant column (standard deviation 0,
  scaled by 1) becomes all zero. In exact arithmetic the values are exactly 0 and 1.
\<close>

theorem scaler_standardizes_training_columns:
  assumes "X \<noteq> []" and "rectangular d X" and "j < d"
  shows "\<exists>s Z. scaler_fit_transform X = Inr (s, Z)
           \<and> mean (column j Z) = 0
           \<and> (if std (column j X) = 0 then list_all (\<lambda>z. z = 0) (column j Z)
               else std (column j Z) = 1)"
proof -
  from assms(1) obtain row rest where X: "X = row # rest" by (cases X) auto
  with assms(2) have d: "length row = d" by (simp add: rectangular_def)
  define s where "s = \<lparr>scaler_mean = map (\<lambda>j. mean (column j X)) [0..<d],
                        scaler_scale = map (\<lambda>j. column_scale (column j X)) [0..<d]\<rparr>"
  define col where "col = column j X"
  have fit: "scaler_fit X = Inr s"
    using assms(2) d by (simp add: scaler_fit_def X s_def)
  have tr: "scaler_transform s X = Inr (map (scale_row s) X)"
    using assms(1,2) by (simp add: scaler_transform_def s_def)
  have ft: "scaler_fit_transform X = Inr (s, map (scale_row s) X)"
    by (simp add: scaler_fit_transform_def fit tr)
  have ne: "col \<noteq> []" using assms(1) by (simp add: col_def column_def)
  have "column j (map (scale_row s) X)
      = map (\<lambda>x. (x - scaler_mean s ! j) / scaler_scale s ! j) col"
    unfolding col_def by (rule column_transform[OF assms(2,3)]) (simp_all add: s_def)
  then have Z: "column j (map (scale_row s) X) = map (\<lambda>x. (x - mean col) / column_scale col) col"
    using assms(3) by (simp add: s_def col_def)
  have m: "mean (column j (map (scale_row s) X)) = 0"
    unfolding Z by (rule mean_standardize[OF ne])
  have c: "list_all (\<lambda>z. z = 0) (column j (map (scale_row s) X))" if "variance col = 0"
    unfolding Z using variance_zero_constant[OF that] by (auto simp: list_all_iff)
  have v: "std (column j (map (scale_row s) X)) = 1" if "variance col \<noteq> 0"
    unfolding Z by (rule std_standardize[OF ne that])
  show ?thesis
    using ft m c v by (auto simp: std_zero_iff col_def)
qed

theorem scaler_standardizes_training_columns_witness:
  "[[1, 5], [3, 5]] \<noteq> ([] :: real list list) \<and> rectangular 2 [[1, 5], [3, 5 :: real]] \<and> (0::nat) < 2
   \<and> std (column 0 [[1, 5], [3, 5]]) = 1
   \<and> std (column 1 [[1, 5], [3, 5]]) = 0
   \<and> (\<exists>s Z. scaler_fit_transform [[1, 5], [3, 5]] = Inr (s, Z)
          \<and> mean (column 0 Z) = 0 \<and> std (column 0 Z) = 1
          \<and> mean (column 1 Z) = 0 \<and> list_all (\<lambda>z. z = 0) (column 1 Z))"
proof -
  have r: "rectangular 2 [[1, 5], [3, 5 :: real]]" by (simp add: rectangular_def)
  have s: "std (column 0 [[1, 5], [3, 5]]) = 1"
    by (simp add: std_def variance_def mean_def column_def)
  have c: "std (column 1 [[1, 5], [3, 5]]) = 0"
    by (simp add: std_def variance_def mean_def column_def)
  from scaler_standardizes_training_columns [OF _ r, of 0]
    scaler_standardizes_training_columns [OF _ r, of 1] s c r
  show ?thesis by auto
qed

subsection \<open>Imputation\<close>

lemma getitem_list_map_of:
  assumes "getitem_list df names = Inr fs" and "name \<in> set names"
  shows "\<exists>c. getitem df name = Inr c \<and> map_of fs name = Some c"
  using assms
proof (induction names arbitrary: fs)
  case Nil
  then show ?case by simp
next
  case (Cons n names)
  from Cons.prems(1) obtain c rest where
    c: "getitem df n = Inr c" and rest: "getitem_list df names = Inr rest" and fs: "fs = (n, c) # rest"
    by (auto simp: and_then_eq_Inr)
  show ?case
  proof (cases "name = n")
    case True
    with c fs show ?thesis by simp
  next
    case False
    with Cons.prems(2) have "name \<in> set names" by simp
    from Cons.IH[OF rest this] False fs show ?thesis by simp
  qed
qed

lemma median_map_of:
  assumes "median fs = Inr meds" and "map_of fs name = Some c"
  shows "\<exists>m. column_median c = Inr m \<and> map_of meds name = Some m"
  using assms
proof (induction fs arbitrary: meds)
  case Nil
  then show ?case by simp
next
  case (Cons p fs)
  obtain n c' where p: "p = (n, c')" by (cases p)
  from Cons.prems(1) p obtain m rest where
    m: "column_median c' = Inr m" and rest: "median fs = Inr rest" and meds: "meds = (n, m) # rest"
    by (auto simp: and_then_eq_Inr)
  show ?case
  proof (cases "name = n")
    case True
    with Cons.prems(2) p m meds show ?thesis by simp
  next
    case False
    with Cons.prems(2) p have "map_of fs name = Some c" by simp
    from Cons.IH[OF rest this] False meds show ?thesis by simp
  qed
qed

lemma map_of_fillna:
  assumes "map_of fs name = Some c" and "map_of meds name = Some m"
  shows "map_of (fillna fs meds) name = Some (fillna_column m c)"
  using assms by (induction fs) (auto simp: fillna_def)

lemma map_of_append_Some: "map_of xs k = Some v \<Longrightarrow> map_of (xs @ ys) k = Some v"
  by (simp add: map_add_Some_iff)

lemma fillna_getitem:
  assumes "getitem_list src names = Inr fs" and "median fs = Inr meds" and "name \<in> set names"
  shows "imputed_from src src (fillna fs meds @ extra) name"
proof -
  from getitem_list_map_of[OF assms(1,3)] obtain c where
    c: "getitem src name = Inr c" and fc: "map_of fs name = Some c" by blast
  from median_map_of[OF assms(2) fc] obtain m where
    m: "column_median c = Inr m" and mm: "map_of meds name = Some m" by blast
  have "map_of (fillna fs meds @ extra) name = Some (fillna_column m c)"
    by (rule map_of_append_Some) (rule map_of_fillna[OF fc mm])
  then have "getitem (fillna fs meds @ extra) name = Inr (fillna_column m c)"
    by (simp add: getitem_def)
  then show ?thesis by (simp add: imputed_from_def c m)
qed

lemma wsp_imputed:
  assumes "wsp_prepare_data self df = Inr (X, y)" and "name \<in> set (wsp_feature_names self)"
  shows "imputed_from df df X name"
proof -
  from assms(1) obtain fs meds where
    "getitem_list df (wsp_feature_names self) = Inr fs" "median fs = Inr meds" "X = fillna fs meds"
    by (auto simp: wsp_prepare_data_def and_then_eq_Inr)
  with fillna_getitem[of df _ fs meds name "[]"] assms(2) show ?thesis by simp
qed

lemma rtp_imputed:
  assumes "rtp_prepare_data self df = Inr (X, y)" and "name \<in> set (rtp_feature_names self)"
  shows "imputed_from df df X name"
proof -
  from assms(1) obtain fs meds dummies where
    "getitem_list df (rtp_feature_names self) = Inr fs" "median fs = Inr meds"
    "X = fillna fs meds @ dummies"
    by (auto simp: rtp_prepare_data_def and_then_eq_Inr concat_columns_def)
  with fillna_getitem[of df _ fs meds name dummies] assms(2) show ?thesis by simp
qed

lemma wpp_imputed:
  assumes "wpp_prepare_data self df = Inr (X, y)" and "name \<in> set (wpp_feature_names self)"
  shows "\<exists>successful. getitem df ''successful'' = Inr successful
           \<and> imputed_from (getitem_mask df (eq_True successful))
                 (getitem_mask df (eq_True successful)) X name"
proof -
  from assms(1) obtain s fs meds where
    "getitem df ''successful'' = Inr s"
    "getitem_list (getitem_mask df (eq_True s)) (wpp_feature_names self) = Inr fs"
    "median fs = Inr meds" "X = fillna fs meds"
    by (auto simp: wpp_prepare_data_def and_then_eq_Inr Let_def)
  with fillna_getitem[of _ _ fs meds name "[]"] assms(2) show ?thesis by simp
qed

lemmas prepare_defs = getitem_def median_list_def present_def fillna_def fill_value_def trunc_def
  categories_def indicator_def concat_columns_def getitem_mask_def keep_def

text \<open>
  C3 (as amended). In every column of \<^verbatim>\<open>feature_names\<close> each missing value is replaced
  by the median of that column over all the rows that \<^verbatim>\<open>prepare_data\<close> prepares, before
  any split: the entire input dataset for the success and the recovery predictor, the
  rows with \<^verbatim>\<open>successful == True\<close> for the progression predictor.
\<close>

theorem prepare_data_imputes_median_of_prepared_rows:
  "(wsp_prepare_data ws sdf = Inr (sX, sy) \<longrightarrow> sname \<in> set (wsp_feature_names ws) \<longrightarrow>
      imputed_from sdf sdf sX sname)
   \<and> (rtp_prepare_data rt rdf = Inr (rX, ry) \<longrightarrow> rname \<in> set (rtp_feature_names rt) \<longrightarrow>
      imputed_from rdf rdf rX rname)
   \<and> (wpp_prepare_data wp pdf = Inr (pX, py) \<longrightarrow> pname \<in> set (wpp_feature_names wp) \<longrightarrow>
      (\<exists>successful. getitem pdf ''successful'' = Inr successful
         \<and> imputed_from (getitem_mask pdf (eq_True successful))
              (getitem_mask pdf (eq_True successful)) pX pname))"
  using wsp_imputed rtp_imputed wpp_imputed by blast

theorem prepare_data_imputes_median_of_prepared_rows_witness:
  "(\<exists>X y. wsp_prepare_data (WorkoutSuccessPredictor_init :: real WorkoutSuccessPredictor)
             success_data = Inr (X, y)
      \<and> imputed_from success_data success_data X ''sleep_hours''
      \<and> getitem X ''sleep_hours'' = Inr (NumCol [Some 7, Some (15 / 2), Some 8, Some 6, Some 9]))
   \<and> (\<exists>X y. rtp_prepare_data (RecoveryTimePredictor_init :: real RecoveryTimePredictor)
             recovery_data = Inr (X, y)
      \<and> imputed_from recovery_data recovery_data X ''workout_volume''
      \<and> getitem X ''workout_volume''
          = Inr (NumCol [Some 5000, Some 5500, Some 7000, Some 4000, Some 6000]))
   \<and> (\<exists>X y. wpp_prepare_data (WeightProgressionPredictor_init :: real WeightProgressionPredictor)
             progression_data = Inr (X, y)
      \<and> imputed_from (getitem_mask progression_data [True, True, False])
           (getitem_mask progression_data [True, True, False]) X ''previous_weight''
      \<and> getitem X ''previous_weight'' = Inr (NumCol [Some 10, Some 10]))"
proof -
  obtain X1 y1 where
    e1: "wsp_prepare_data (WorkoutSuccessPredictor_init :: real WorkoutSuccessPredictor)
           success_data = Inr (X1, y1)"
    and c1: "getitem X1 ''sleep_hours'' = Inr (NumCol [Some 7, Some (15 / 2), Some 8, Some 6, Some 9])"
    by (simp add: wsp_prepare_data_def WorkoutSuccessPredictor_init_def success_data_def
        prepare_defs)
  obtain X2 y2 where
    e2: "rtp_prepare_data (RecoveryTimePredictor_init :: real RecoveryTimePredictor)
           recovery_data = Inr (X2, y2)"
    and c2: "getitem X2 ''workout_volume''
          = Inr (NumCol [Some 5000, Some 5500, Some 7000, Some 4000, Some 6000])"
    by (simp add: rtp_prepare_data_def RecoveryTimePredictor_init_def recovery_data_def
        prepare_defs)
  obtain X3 y3 where
    e3: "wpp_prepare_data (WeightProgressionPredictor_init :: real WeightProgressionPredictor)
           progression_data = Inr (X3, y3)"
    and c3: "getitem X3 ''previous_weight'' = Inr (NumCol [Some 10, Some 10])"
    by (simp add: wpp_prepare_data_def WeightProgressionPredictor_init_def progression_data_def
        prepare_defs)
  have s: "getitem progression_data ''successful'' = Inr (BoolCol [True, True, False])"
    by (simp add: progression_data_def getitem_def)
  note t = prepare_data_imputes_median_of_prepared_rows
    [where ws = "WorkoutSuccessPredictor_init :: real WorkoutSuccessPredictor"
       and sdf = success_data and sX = X1 and sy = y1 and sname = "''sleep_hours''"
       and rt = "RecoveryTimePredictor_init :: real RecoveryTimePredictor"
       and rdf = recovery_data and rX = X2 and ry = y2 and rname = "''workout_volume''"
       and wp = "WeightProgressionPredictor_init :: real WeightProgressionPredictor"
       and pdf = progression_data and pX = X3 and py = y3 and pname = "''previous_weight''"]
  have n1: "''sleep_hours'' \<in> set (wsp_feature_names
      (WorkoutSuccessPredictor_init :: real WorkoutSuccessPredictor))"
    by (simp add: WorkoutSuccessPredictor_init_def)
  have n2: "''workout_volume'' \<in> set (rtp_feature_names
      (RecoveryTimePredictor_init :: real RecoveryTimePredictor))"
    by (simp add: RecoveryTimePredictor_init_def)
  have n3: "''previous_weight'' \<in> set (wpp_feature_names
      (WeightProgressionPredictor_init :: real WeightProgressionPredictor))"
    by (simp add: WeightProgressionPredictor_init_def)
  from t e1 n1 have r1: "imputed_from success_data success_data X1 ''sleep_hours''" by blast
  from t e2 n2 have r2: "imputed_from recovery_data recovery_data X2 ''workout_volume''" by blast
  from t e3 n3 s have r3: "imputed_from (getitem_mask progression_data [True, True, False])
           (getitem_mask progression_data [True, True, False]) X3 ''previous_weight''"
    by auto
  from e1 c1 r1 e2 c2 r2 e3 c3 r3 show ?thesis by blast
qed

text \<open>
  The claim as stated fails for the progression predictor: the missing previous weight of
  the first row is replaced by 10, the median over the two successful rows, while the
  median of the column over the entire input dataset is 55.
\<close>

theorem progression_median_ignores_filtered_rows:
  "\<exists>X y. wpp_prepare_data (WeightProgressionPredictor_init :: real WeightProgressionPredictor)
            progression_data = Inr (X, y)
     \<and> getitem X ''previous_weight'' = Inr (NumCol [Some 10, Some 10])
     \<and> and_then (getitem progression_data ''previous_weight'') column_median = Inr (Some 55)
     \<and> \<not> imputed_from progression_data (getitem_mask progression_data [True, True, False])
           X ''previous_weight''"
  by (simp add: wpp_prepare_data_def WeightProgressionPredictor_init_def progression_data_def
      prepare_defs imputed_from_def)

subsection \<open>Reproducible training\<close>

lemma check_random_state_seed: "check_random_state (Some seed) g = Seeded seed"
  by (simp add: check_random_state_def)

lemma train_test_split_seeded:
  "train_test_split_with iloc_y len_y sk g X y test_size (Some seed)
     = train_test_split_with iloc_y len_y sk g' X y test_size (Some seed)"
  by (simp add: train_test_split_with_def check_random_state_seed)

lemma regressor_train_seeded:
  assumes "random_state params = Some seed"
  shows "regressor_train sk g params X y = regressor_train sk g' params X y"
  unfolding regressor_train_def train_test_split_series_def
    train_test_split_seeded[of _ _ sk g _ _ _ _ g'] assms check_random_state_seed ..

lemma wsp_train_seeded:
  assumes "random_state (wsp_params self) = Some seed"
  shows "wsp_train sk g self df = wsp_train sk g' self df"
  unfolding wsp_train_def train_test_split_labels_def assms check_random_state_seed
    train_test_split_seeded[of _ _ sk g _ _ _ _ g'] ..

lemma rtp_train_seeded:
  assumes "random_state (rtp_params self) = Some seed"
  shows "rtp_train sk g self df = rtp_train sk g' self df"
  unfolding rtp_train_def regressor_train_seeded[OF assms, of sk g _ _ g'] ..

lemma wpp_train_seeded:
  assumes "random_state (wpp_params self) = Some seed"
  shows "wpp_train sk g self df = wpp_train sk g' self df"
  unfolding wpp_train_def regressor_train_seeded[OF assms, of sk g _ _ g'] ..

lemma joblib_dump_steps_cases:
  "joblib_dump_steps ex v p w =
     (if destination_ok p w
      then Inr (w\<lparr>files := (files w)(p \<mapsto> [])\<rparr>
                # write_chunks p (pickle ex v) (w\<lparr>files := (files w)(p \<mapsto> [])\<rparr>))
      else Inl OSError)"
  by (simp add: joblib_dump_steps_def open_wb_def)

lemma wsp_save_Inl:
  "wsp_save ex amb self p w = Inl e \<longleftrightarrow> \<not> destination_ok p w \<and> e = OSError"
  by (auto simp: wsp_save_def wsp_save_steps_def now_def joblib_dump_steps_cases destination_ok_def)

lemma wsp_save_Inr:
  "wsp_save ex amb self p w = Inr w2 \<Longrightarrow> destination_ok p w"
  by (auto simp: wsp_save_def wsp_save_steps_def now_def joblib_dump_steps_cases destination_ok_def
      split: if_splits)

lemma rtp_save_Inl:
  "rtp_save ex amb self p w = Inl e \<longleftrightarrow> \<not> destination_ok p w \<and> e = OSError"
  by (auto simp: rtp_save_def rtp_save_steps_def now_def joblib_dump_steps_cases destination_ok_def)

lemma rtp_save_Inr:
  "rtp_save ex amb self p w = Inr w2 \<Longrightarrow> destination_ok p w"
  by (auto simp: rtp_save_def rtp_save_steps_def now_def joblib_dump_steps_cases destination_ok_def
      split: if_splits)

lemma wpp_save_Inl:
  "wpp_save ex amb self p w = Inl e \<longleftrightarrow> \<not> destination_ok p w \<and> e = OSError"
  by (auto simp: wpp_save_def wpp_save_steps_def now_def joblib_dump_steps_cases destination_ok_def)

lemma wpp_save_Inr:
  "wpp_save ex amb self p w = Inr w2 \<Longrightarrow> destination_ok p w"
  by (auto simp: wpp_save_def wpp_save_steps_def now_def joblib_dump_steps_cases destination_ok_def
      split: if_splits)

lemma snd_train_workout_success_model:
  "snd (train_workout_success_model sk ex amb data_path w) =
     and_then (read_csv ex data_path) (\<lambda>df.
     and_then (wsp_train sk (numpy_rng amb) WorkoutSuccessPredictor_init df) (\<lambda>r.
       if destination_ok ''models/workout_success_model.pkl'' (print_line (Training WorkoutSuccess) w)
       then Inr r else Inl OSError))"
  by (auto simp: train_workout_success_model_def Let_def wsp_save_Inl
      split: sum.splits prod.splits dest: wsp_save_Inr)

lemma snd_train_recovery_model:
  "snd (train_recovery_model sk ex amb data_path w) =
     and_then (read_csv ex data_path) (\<lambda>df.
     and_then (rtp_train sk (numpy_rng amb) RecoveryTimePredictor_init df) (\<lambda>r.
       if destination_ok ''models/recovery_time_model.pkl'' (print_line (Training RecoveryTime) w)
       then Inr r else Inl OSError))"
  by (auto simp: train_recovery_model_def Let_def rtp_save_Inl
      split: sum.splits prod.splits dest: rtp_save_Inr)

lemma snd_train_progression_model:
  "snd (train_progression_model sk ex amb data_path w) =
     and_then (read_csv ex data_path) (\<lambda>df.
     and_then (wpp_train sk (numpy_rng amb) WeightProgressionPredictor_init df) (\<lambda>r.
       if destination_ok ''models/weight_progression_model.pkl''
            (print_line (Training WeightProgression) w)
       then Inr r else Inl OSError))"
  by (auto simp: train_progression_model_def Let_def wpp_save_Inl
      split: sum.splits prod.splits dest: wpp_save_Inr)

lemma init_seeds:
  "random_state (wsp_params WorkoutSuccessPredictor_init) = Some 42"
  "random_state (rtp_params RecoveryTimePredictor_init) = Some 42"
  "random_state (wpp_params WeightProgressionPredictor_init) = Some 42"
  by (simp_all add: WorkoutSuccessPredictor_init_def RecoveryTimePredictor_init_def
      WeightProgressionPredictor_init_def)

text \<open>
  The seed matters: a split that is given no seed draws from the process-wide generator,
  and two states of that generator can give two different partitions.
\<close>

lemma unseeded_split_follows_the_generator:
  "train_test_split_labels rotating_sklearn 0 [(''x'', NumCol [Some 1, Some 2, Some 3])]
       [0, 1, 0] 0.2 None
     \<noteq> train_test_split_labels rotating_sklearn 1 [(''x'', NumCol [Some 1, Some 2, Some 3])]
       [0, 1, 0] 0.2 None"
  by (simp add: train_test_split_labels_def train_test_split_with_def check_random_state_def
      rotating_sklearn_def rotating_split_def nrows_def take_rows_def upt_rec rotate_def
      rotate1_def)

text \<open>
  C4. Two complete training runs of the same task on the same dataset return the same
  predictor (fitted scaler and model) and the same evaluation metrics, or fail with the
  same error, whatever the state of the process-wide random number generator and whatever
  the clock shows in either run: the split and the forest both draw from a generator
  seeded with 42.
\<close>

theorem training_runs_are_reproducible:
  "snd (train_workout_success_model sk ex amb data_path w)
     = snd (train_workout_success_model sk ex amb' data_path w)
   \<and> snd (train_recovery_model sk ex amb data_path w)
     = snd (train_recovery_model sk ex amb' data_path w)
   \<and> snd (train_progression_model sk ex amb data_path w)
     = snd (train_progression_model sk ex amb' data_path w)"
  unfolding snd_train_workout_success_model snd_train_recovery_model snd_train_progression_model
    wsp_train_seeded[OF init_seeds(1), of sk "numpy_rng amb" _ "numpy_rng amb'"]
    rtp_train_seeded[OF init_seeds(2), of sk "numpy_rng amb" _ "numpy_rng amb'"]
    wpp_train_seeded[OF init_seeds(3), of sk "numpy_rng amb" _ "numpy_rng amb'"]
  by simp

subsection \<open>The recovery predictor: what is trained and what is saved\<close>

lemma getitem_list_length: "getitem_list df names = Inr fs \<Longrightarrow> length fs = length names"
  by (induction names arbitrary: fs) (auto simp: and_then_eq_Inr)

lemma fillna_length: "length (fillna fs meds) = length fs"
  by (simp add: fillna_def)

lemma get_dummies_Inr:
  "get_dummies c prefix = Inr d \<Longrightarrow> \<exists>seen. c = StrCol seen \<and> length d = length (categories seen)"
  by (cases c) auto

lemma rtp_prepare_data_width:
  assumes "rtp_prepare_data self df = Inr (X, y)"
  shows "\<exists>seen. getitem df ''muscle_group'' = Inr (StrCol seen)
           \<and> length X = length (rtp_feature_names self) + length (categories seen)"
  using assms
  by (auto simp: rtp_prepare_data_def and_then_eq_Inr concat_columns_def fillna_length
      dest!: get_dummies_Inr getitem_list_length)

lemma iloc_length: "iloc df idx = Inr df' \<Longrightarrow> length df' = length df"
  by (induction df arbitrary: df') (auto simp: and_then_eq_Inr)

lemma train_test_split_width:
  assumes "train_test_split_with iloc_y len_y sk g X y test_size seed
             = Inr (X_train, X_test, y_train, y_test)"
  shows "length X_train = length X \<and> length X_test = length X"
  using assms
  by (auto simp: train_test_split_with_def and_then_eq_Inr split: if_splits dest: iloc_length)

lemma to_columns_length: "to_columns df = Inr cols \<Longrightarrow> length cols = length df"
  by (induction df arbitrary: cols) (auto simp: and_then_eq_Inr)

lemma to_matrix_rectangular: "to_matrix df = Inr M \<Longrightarrow> rectangular (length df) M"
  by (auto simp: to_matrix_def and_then_eq_Inr rows_of_def rectangular_def list_all_iff
      to_columns_length split: if_splits)

lemma scaler_fit_width:
  assumes "scaler_fit M = Inr s" and "rectangular d M"
  shows "length (scaler_mean s) = d \<and> length (scaler_scale s) = d"
  using assms by (cases M) (auto simp: scaler_fit_def rectangular_def split: if_splits)

lemma scaler_fit_transform_width:
  assumes "scaler_fit_transform M = Inr (s, Z)" and "rectangular d M"
  shows "length (scaler_mean s) = d \<and> length (scaler_scale s) = d"
  using assms by (auto simp: scaler_fit_transform_def and_then_eq_Inr dest: scaler_fit_width)

lemma regressor_train_width:
  assumes "regressor_train sk g params X y = Inr (model, scaler, metrics)"
  shows "length (scaler_mean scaler) = length X"
proof -
  from assms obtain X_train X_test y_train y_test M_train Z where
    sp: "train_test_split_series sk g X y 0.2 (Some 42) = Inr (X_train, X_test, y_train, y_test)"
    and m: "to_matrix X_train = Inr M_train"
    and f: "scaler_fit_transform M_train = Inr (scaler, Z)"
    by (auto simp: regressor_train_def and_then_eq_Inr Let_def)
  from sp have "length X_train = length X"
    unfolding train_test_split_series_def by (auto dest: train_test_split_width)
  with to_matrix_rectangular[OF m] scaler_fit_transform_width[OF f] show ?thesis by simp
qed

lemma rtp_train_fitted:
  assumes "rtp_train sk g self df = Inr (p, m)"
  shows "\<exists>seen s model. getitem df ''muscle_group'' = Inr (StrCol seen)
           \<and> rtp_scaler p = Some s \<and> rtp_model p = Some model
           \<and> length (scaler_mean s) = length (rtp_feature_names self) + length (categories seen)
           \<and> rtp_feature_names p = rtp_feature_names self
           \<and> rtp_muscle_groups p = rtp_muscle_groups self"
proof -
  from assms obtain X y model scaler where
    pd: "rtp_prepare_data self df = Inr (X, y)"
    and rt: "regressor_train sk g (rtp_params self) X y = Inr (model, scaler, m)"
    and p: "p = self\<lparr>rtp_model := Some model, rtp_scaler := Some scaler\<rparr>"
    by (auto simp: rtp_train_def and_then_eq_Inr)
  from rtp_prepare_data_width[OF pd] regressor_train_width[OF rt] p show ?thesis by auto
qed

lemma write_chunks_content:
  assumes "files w p = Some c"
  shows "files (last (w # write_chunks p chunks w)) p = Some (c @ concat chunks)"
  using assms by (induction chunks arbitrary: w c) (simp_all add: file_write_def)

lemma joblib_dump_steps_content:
  assumes "joblib_dump_steps ex v p w = Inr steps"
  shows "files (last steps) p = Some (concat (pickle ex v))"
proof -
  from assms have "steps = w\<lparr>files := (files w)(p \<mapsto> [])\<rparr>
                # write_chunks p (pickle ex v) (w\<lparr>files := (files w)(p \<mapsto> [])\<rparr>)"
    by (simp add: joblib_dump_steps_cases split: if_splits)
  then show ?thesis
    using write_chunks_content[of "w\<lparr>files := (files w)(p \<mapsto> [])\<rparr>" p "[]" "pickle ex v"] by simp
qed

lemma rtp_save_content:
  assumes "rtp_save ex amb self p w = Inr w'"
  shows "files w' p = Some (concat (pickle ex (rtp_artifact self (clock amb (ticks w)))))"
  using assms
  by (auto simp: rtp_save_def rtp_save_steps_def now_def and_then_eq_Inr print_line_def
      dest: joblib_dump_steps_content)

lemma train_recovery_model_Inr:
  assumes "train_recovery_model sk ex amb data_path w = (w', Inr (p, m))"
  shows "\<exists>df. read_csv ex data_path = Inr df
           \<and> rtp_train sk (numpy_rng amb) RecoveryTimePredictor_init df = Inr (p, m)
           \<and> files w' ''models/recovery_time_model.pkl''
               = Some (concat (pickle ex (rtp_artifact p (clock amb (ticks w)))))"
  using assms
  by (auto simp: train_recovery_model_def Let_def print_line_def
      split: sum.splits prod.splits dest!: rtp_save_content)

lemmas split_defs = train_test_split_series_def train_test_split_labels_def train_test_split_with_def
  check_random_state_def nrows_def take_rows_def to_matrix_def rows_of_def
lemmas scaler_defs = scaler_fit_transform_def scaler_fit_def scaler_transform_def rectangular_def
  column_def scale_row_def column_scale_def std_def variance_def mean_def
lemmas metric_defs = accuracy_score_def mean_squared_error_def r2_score_def
  classification_report_def importance_table_def of_bool_real_def

lemma rtp_train_stub:
  "\<exists>p m. rtp_train stub_sklearn () RecoveryTimePredictor_init recovery_data = Inr (p, m)"
  by (simp add: rtp_train_def rtp_prepare_data_def regressor_train_def RecoveryTimePredictor_init_def
      recovery_data_def prepare_defs split_defs stub_sklearn_def upt_rec scaler_defs metric_defs)

lemma rtp_save_ok: "destination_ok p w \<Longrightarrow> \<exists>w'. rtp_save ex amb self p w = Inr w'"
  using rtp_save_Inl[of ex amb self p w] by (cases "rtp_save ex amb self p w") auto

lemma recovery_run_stub:
  "\<exists>w' p m. train_recovery_model stub_sklearn stub_external ambient0 ''recovery.csv'' world0
     = (w', Inr (p, m))"
proof -
  from rtp_train_stub obtain p m where
    t: "rtp_train stub_sklearn () RecoveryTimePredictor_init recovery_data = Inr (p, m)" by blast
  have "destination_ok ''models/recovery_time_model.pkl'' (print_line (Training RecoveryTime) world0)"
    by (simp add: destination_ok_def dirname_def print_line_def world0_def)
  from rtp_save_ok[OF this] obtain w' where
    "rtp_save stub_external ambient0 p ''models/recovery_time_model.pkl''
       (print_line (Training RecoveryTime) world0) = Inr w'" by blast
  with t show ?thesis
    by (simp add: train_recovery_model_def stub_external_def ambient0_def)
qed


lemma init_recovery_names:
  "rtp_feature_names RecoveryTimePredictor_init
     = [''workout_volume'', ''workout_intensity'', ''sleep_quality'', ''nutrition_quality'']"
  "rtp_muscle_groups RecoveryTimePredictor_init
     = [''chest'', ''back'', ''shoulders'', ''legs'', ''arms'', ''core'']"
  by (simp_all add: RecoveryTimePredictor_init_def)

text \<open>
  C10. For every training run of the recovery task, the file that \<^verbatim>\<open>save\<close> leaves at
  the model path is the pickle of a dictionary whose \<open>feature_names\<close> entry is exactly the
  four numeric names, although the scaler in the same dictionary was fitted on those four
  columns plus one indicator column per muscle group of the dataset.
\<close>

theorem recovery_artifact_feature_names:
  assumes "train_recovery_model sk ex amb data_path w = (w', Inr (p, m))"
  shows "\<exists>a df seen s.
           files w' ''models/recovery_time_model.pkl'' = Some (concat (pickle ex a))
         \<and> map_of a ''feature_names''
             = Some (StrList [''workout_volume'', ''workout_intensity'', ''sleep_quality'',
                              ''nutrition_quality''])
         \<and> read_csv ex data_path = Inr df
         \<and> getitem df ''muscle_group'' = Inr (StrCol seen)
         \<and> map_of a ''scaler'' = Some (ScalerV (Some s))
         \<and> length (scaler_mean s) = 4 + length (categories seen)"
proof -
  from train_recovery_model_Inr[OF assms] obtain df where
    df: "read_csv ex data_path = Inr df"
    and t: "rtp_train sk (numpy_rng amb) RecoveryTimePredictor_init df = Inr (p, m)"
    and f: "files w' ''models/recovery_time_model.pkl''
               = Some (concat (pickle ex (rtp_artifact p (clock amb (ticks w)))))"
    by blast
  from rtp_train_fitted[OF t] obtain seen s where
    "getitem df ''muscle_group'' = Inr (StrCol seen)" "rtp_scaler p = Some s"
    "length (scaler_mean s) = 4 + length (categories seen)"
    "rtp_feature_names p = [''workout_volume'', ''workout_intensity'', ''sleep_quality'',
                              ''nutrition_quality'']"
    by (auto simp: init_recovery_names)
  with df f show ?thesis
    by (intro exI[of _ "rtp_artifact p (clock amb (ticks w))"] exI[of _ df] exI[of _ seen]
        exI[of _ s]) (simp add: rtp_artifact_def)
qed

theorem recovery_artifact_feature_names_witness:
  "\<exists>w' p m a s.
     train_recovery_model stub_sklearn stub_external ambient0 ''recovery.csv'' world0
       = (w', Inr (p, m))
     \<and> files w' ''models/recovery_time_model.pkl'' = Some (concat (pickle stub_external a))
     \<and> map_of a ''feature_names''
         = Some (StrList [''workout_volume'', ''workout_intensity'', ''sleep_quality'',
                          ''nutrition_quality''])
     \<and> map_of a ''scaler'' = Some (ScalerV (Some s))
     \<and> length (scaler_mean s) = 7"
proof -
  from recovery_run_stub obtain w' p m where
    r: "train_recovery_model stub_sklearn stub_external ambient0 ''recovery.csv'' world0
          = (w', Inr (p, m))" by blast
  have c: "length (categories [Some ''legs'', Some ''chest'', Some ''legs'', Some ''glutes'',
                                Some ''chest'']) = 3"
    by (simp add: categories_def present_def)
  from recovery_artifact_feature_names[OF r] r c show ?thesis
    by (auto simp: stub_external_def recovery_data_def getitem_def)
qed

text \<open>
  C8 (as amended). For every training run of the recovery task, the \<open>muscle_groups\<close> entry
  of the saved dictionary is the list fixed in the constructor: chest, back, shoulders,
  legs, arms, core, whatever muscle groups the dataset holds.
\<close>

theorem recovery_artifact_muscle_groups:
  assumes "train_recovery_model sk ex amb data_path w = (w', Inr (p, m))"
  shows "\<exists>a. files w' ''models/recovery_time_model.pkl'' = Some (concat (pickle ex a))
         \<and> map_of a ''muscle_groups''
             = Some (StrList [''chest'', ''back'', ''shoulders'', ''legs'', ''arms'', ''core''])"
proof -
  from train_recovery_model_Inr[OF assms] obtain df where
    t: "rtp_train sk (numpy_rng amb) RecoveryTimePredictor_init df = Inr (p, m)"
    and f: "files w' ''models/recovery_time_model.pkl''
               = Some (concat (pickle ex (rtp_artifact p (clock amb (ticks w)))))"
    by blast
  from rtp_train_fitted[OF t] have
    "rtp_muscle_groups p = [''chest'', ''back'', ''shoulders'', ''legs'', ''arms'', ''core'']"
    by (auto simp: init_recovery_names)
  with f show ?thesis
    by (intro exI[of _ "rtp_artifact p (clock amb (ticks w))"]) (simp add: rtp_artifact_def)
qed

theorem recovery_artifact_muscle_groups_witness:
  "\<exists>w' p m a.
     train_recovery_model stub_sklearn stub_external ambient0 ''recovery.csv'' world0
       = (w', Inr (p, m))
     \<and> files w' ''models/recovery_time_model.pkl'' = Some (concat (pickle stub_external a))
     \<and> map_of a ''muscle_groups''
         = Some (StrList [''chest'', ''back'', ''shoulders'', ''legs'', ''arms'', ''core''])"
proof -
  from recovery_run_stub obtain w' p m where
    r: "train_recovery_model stub_sklearn stub_external ambient0 ''recovery.csv'' world0
          = (w', Inr (p, m))" by blast
  from recovery_artifact_muscle_groups[OF r] r show ?thesis by blast
qed

text \<open>
  The claim as stated fails on the example dataset, whose muscle groups are legs, chest
  and glutes: glutes was seen in training and is not stored, and back, shoulders, arms
  and core are stored and were not seen.
\<close>

theorem stored_muscle_groups_are_not_those_seen:
  "\<exists>w' p m seen stored.
     train_recovery_model stub_sklearn stub_external ambient0 ''recovery.csv'' world0
       = (w', Inr (p, m))
     \<and> getitem recovery_data ''muscle_group'' = Inr (StrCol seen)
     \<and> files w' ''models/recovery_time_model.pkl''
         = Some (concat (pickle stub_external
              (rtp_artifact p ''2025-01-01T00:00:00'' :: (real, real) artifact)))
     \<and> map_of (rtp_artifact p ''2025-01-01T00:00:00'' :: (real, real) artifact) ''muscle_groups''
         = Some (StrList stored)
     \<and> ''glutes'' \<in> set (present seen)
     \<and> ''glutes'' \<notin> set stored
     \<and> set stored \<noteq> set (present seen)"
proof -
  from recovery_run_stub obtain w' p m where
    r: "train_recovery_model stub_sklearn stub_external ambient0 ''recovery.csv'' world0
          = (w', Inr (p, m))" by blast
  from train_recovery_model_Inr[OF r] have
    t: "rtp_train stub_sklearn () RecoveryTimePredictor_init recovery_data = Inr (p, m)"
    and f: "files w' ''models/recovery_time_model.pkl''
         = Some (concat (pickle stub_external (rtp_artifact p ''2025-01-01T00:00:00'')))"
    by (auto simp: stub_external_def ambient0_def)
  from rtp_train_fitted[OF t] have
    g: "rtp_muscle_groups p = [''chest'', ''back'', ''shoulders'', ''legs'', ''arms'', ''core'']"
    by (auto simp: init_recovery_names)
  have s: "getitem recovery_data ''muscle_group''
      = Inr (StrCol [Some ''legs'', Some ''chest'', Some ''legs'', Some ''glutes'', Some ''chest''])"
    by (simp add: recovery_data_def getitem_def)
  have a: "map_of (rtp_artifact p ''2025-01-01T00:00:00'' :: (real, real) artifact) ''muscle_groups''
         = Some (StrList [''chest'', ''back'', ''shoulders'', ''legs'', ''arms'', ''core''])"
    by (simp add: rtp_artifact_def g)
  have i: "''glutes'' \<in> set (present [Some ''legs'', Some ''chest'', Some ''legs'', Some ''glutes'',
      Some ''chest''])"
    by (simp add: present_def)
  have n: "''glutes'' \<notin> set [''chest'', ''back'', ''shoulders'', ''legs'', ''arms'', ''core'']"
    by simp
  from i n have d: "set [''chest'', ''back'', ''shoulders'', ''legs'', ''arms'', ''core'']
      \<noteq> set (present [Some ''legs'', Some ''chest'', Some ''legs'', Some ''glutes'',
      Some ''chest''])"
    by metis
  from r s f a i n d show ?thesis by blast
qed

subsection \<open>Inference with the recovery predictor\<close>

lemma rtp_predict_wrong_length:
  assumes "rtp_scaler p = Some s" and "length features \<noteq> length (scaler_mean s)"
  shows "rtp_predict sk p features = Inl ValueError"
  using assms by (simp add: rtp_predict_def scaler_transform_def rectangular_def)

lemma rtp_predict_right_length:
  assumes "rtp_scaler p = Some s" and "rtp_model p = Some model"
    and "length features = length (scaler_mean s)"
    and "\<And>X. length (regressor_predict sk model X) = length X"
  shows "\<exists>r. rtp_predict sk p features = Inr r"
proof -
  have "length (regressor_predict sk model [scale_row s features]) = 1"
    using assms(4) by simp
  then obtain days where "regressor_predict sk model [scale_row s features] = [days]"
    by (cases "regressor_predict sk model [scale_row s features]") auto
  with assms(1-3) show ?thesis
    by (simp add: rtp_predict_def scaler_transform_def rectangular_def)
qed

lemma recovery_seen:
  "getitem recovery_data ''muscle_group''
     = Inr (StrCol [Some ''legs'', Some ''chest'', Some ''legs'', Some ''glutes'', Some ''chest''])"
  "categories [Some ''legs'', Some ''chest'', Some ''legs'', Some ''glutes'', Some ''chest'']
     = [''chest'', ''glutes'', ''legs'']"
  by (simp_all add: recovery_data_def getitem_def categories_def present_def)

text \<open>
  C7 (as amended). \<^verbatim>\<open>predict\<close> of the recovery predictor encodes nothing: it takes a
  vector of numbers that is already encoded. After training on a dataset, a vector whose
  length is not 4 plus the number of muscle groups of that dataset raises
  \<^verbatim>\<open>ValueError\<close>; four numeric entries followed by a zero for every one of those
  muscle groups give a prediction (the regressor returning one value per row).
\<close>

theorem rtp_predict_takes_encoded_vector:
  assumes "rtp_train sk g RecoveryTimePredictor_init df = Inr (p, m)"
    and "getitem df ''muscle_group'' = Inr (StrCol seen)"
    and "\<And>model X. length (regressor_predict sk model X) = length X"
  shows "(length features \<noteq> 4 + length (categories seen) \<longrightarrow>
            rtp_predict sk p features = Inl ValueError)
       \<and> (length numeric = 4 \<longrightarrow>
            (\<exists>r. rtp_predict sk p (numeric @ replicate (length (categories seen)) 0) = Inr r))"
proof -
  from rtp_train_fitted[OF assms(1)] assms(2) obtain s model where
    s: "rtp_scaler p = Some s" and mo: "rtp_model p = Some model"
    and w: "length (scaler_mean s) = 4 + length (categories seen)"
    by (auto simp: init_recovery_names)
  show ?thesis
  proof (intro conjI impI)
    assume "length features \<noteq> 4 + length (categories seen)"
    with w show "rtp_predict sk p features = Inl ValueError"
      by (intro rtp_predict_wrong_length[OF s]) simp
  next
    assume "length numeric = 4"
    with w have "length (numeric @ replicate (length (categories seen)) (0::real))
        = length (scaler_mean s)" by simp
    from rtp_predict_right_length[OF s mo this assms(3)]
    show "\<exists>r. rtp_predict sk p (numeric @ replicate (length (categories seen)) 0) = Inr r" .
  qed
qed

theorem rtp_predict_takes_encoded_vector_witness:
  "\<exists>p m. rtp_train stub_sklearn () RecoveryTimePredictor_init recovery_data = Inr (p, m)
     \<and> rtp_predict stub_sklearn p [5000, 7, 3, 4, 1] = Inl ValueError
     \<and> (\<exists>r. rtp_predict stub_sklearn p [5000, 7, 3, 4, 0, 0, 0] = Inr r)"
proof -
  from rtp_train_stub obtain p m where
    t: "rtp_train stub_sklearn () RecoveryTimePredictor_init recovery_data = Inr (p, m)" by blast
  have l: "\<And>model X. length (regressor_predict stub_sklearn model X) = length X"
    by (simp add: stub_sklearn_def)
  from rtp_predict_takes_encoded_vector[OF t recovery_seen(1) l, of "[5000, 7, 3, 4, 1]"
      "[5000, 7, 3, 4]"] t
  show ?thesis by (auto simp: recovery_seen(2))
qed

text \<open>
  The claim as stated fails: the only encoder of the code, \<^verbatim>\<open>get_dummies\<close>, gives a
  muscle group that training has not seen an indicator column of its own, holding 1, and
  not a vector of zeros; and \<^verbatim>\<open>predict\<close> on the four numeric entries followed by that
  indicator raises, the scaler having been fitted on seven columns.
\<close>

theorem unseen_muscle_group_is_not_encoded_as_zeros:
  "\<exists>p m seen.
     rtp_train stub_sklearn () RecoveryTimePredictor_init recovery_data = Inr (p, m)
     \<and> getitem recovery_data ''muscle_group'' = Inr (StrCol seen)
     \<and> ''arms'' \<notin> set (present seen)
     \<and> get_dummies (StrCol [Some ''arms'']) ''muscle'' = Inr [(''muscle_arms'', BoolCol [True])]
     \<and> rtp_predict stub_sklearn p [5000, 7, 3, 4, 1] = Inl ValueError"
proof -
  from rtp_train_stub obtain p m where
    t: "rtp_train stub_sklearn () RecoveryTimePredictor_init recovery_data = Inr (p, m)" by blast
  from rtp_train_fitted[OF t] obtain s where
    s: "rtp_scaler p = Some s" and w: "length (scaler_mean s) = 7"
    by (auto simp: init_recovery_names recovery_seen)
  have e: "rtp_predict stub_sklearn p [5000, 7, 3, 4, 1] = Inl ValueError"
    by (rule rtp_predict_wrong_length[OF s]) (simp add: w)
  have u: "''arms'' \<notin> set (present [Some ''legs'', Some ''chest'', Some ''legs'', Some ''glutes'',
      Some ''chest''])"
    by (simp add: present_def)
  have d: "get_dummies (StrCol [Some ''arms'']) ''muscle'' = Inr [(''muscle_arms'', BoolCol [True])]"
    by (simp add: categories_def present_def indicator_def)
  from t recovery_seen(1) u d e show ?thesis by blast
qed

subsection \<open>Saving\<close>

lemma write_chunks_steps:
  assumes "files w p = Some c" and "w' \<in> set (write_chunks p chunks w)"
  shows "(\<exists>n. files w' p = Some (c @ concat (take n chunks)))
       \<and> (\<forall>q. q \<noteq> p \<longrightarrow> files w' q = files w q)"
  using assms
proof (induction chunks arbitrary: w c)
  case Nil
  then show ?case by simp
next
  case (Cons chunk chunks)
  let ?w = "file_write p chunk w"
  have f: "files ?w p = Some (c @ chunk)" using Cons.prems(1) by (simp add: file_write_def)
  have o: "\<forall>q. q \<noteq> p \<longrightarrow> files ?w q = files w q" by (simp add: file_write_def)
  from Cons.prems(2) consider "w' = ?w" | "w' \<in> set (write_chunks p chunks ?w)" by auto
  then show ?case
  proof cases
    case 1
    have "files w' p = Some (c @ concat (take 1 (chunk # chunks)))" using 1 f by simp
    with o 1 show ?thesis by blast
  next
    case 2
    from Cons.IH[OF f 2] obtain n where
      n: "files w' p = Some ((c @ chunk) @ concat (take n chunks))"
      and e: "\<forall>q. q \<noteq> p \<longrightarrow> files w' q = files ?w q" by blast
    from n have "files w' p = Some (c @ concat (take (Suc n) (chunk # chunks)))" by simp
    with e o show ?thesis by metis
  qed
qed

lemma joblib_dump_steps_grows:
  assumes "joblib_dump_steps ex v p w = Inr steps"
  shows "grows_to p (pickle ex v) w steps"
proof -
  define opened where "opened = w\<lparr>files := (files w)(p \<mapsto> [])\<rparr>"
  from assms have st: "steps = opened # write_chunks p (pickle ex v) opened"
    by (simp add: joblib_dump_steps_cases opened_def split: if_splits)
  have o: "files opened p = Some []" by (simp add: opened_def)
  have e: "\<forall>q. q \<noteq> p \<longrightarrow> files opened q = files w q" by (simp add: opened_def)
  have "(\<exists>n. files w' p = Some (concat (take n (pickle ex v))))
       \<and> (\<forall>q. q \<noteq> p \<longrightarrow> files w' q = files w q)" if "w' \<in> set steps" for w'
  proof (cases "w' = opened")
    case True
    have "files w' p = Some (concat (take 0 (pickle ex v)))" using True o by simp
    with True e show ?thesis by blast
  next
    case False
    with that st have "w' \<in> set (write_chunks p (pickle ex v) opened)" by simp
    from write_chunks_steps[OF o this] e show ?thesis by simp
  qed
  moreover have "files (last steps) p = Some (concat (pickle ex v))"
    using joblib_dump_steps_content[OF assms] .
  ultimately show ?thesis using st o by (simp add: grows_to_def)
qed

text \<open>
  C5 (as amended). Each \<^verbatim>\<open>save\<close> writes the serialized dictionary directly into the
  destination file: the file is created or emptied first and then grows chunk by chunk, so
  what a reader finds at any moment is a prefix of the serialization; when \<^verbatim>\<open>save\<close>
  returns, it is the complete serialization. No other file changes, and there is no
  temporary file and no rename.
\<close>

theorem save_writes_destination_in_place:
  "(wsp_save_steps ex amb ws p w = Inr steps \<longrightarrow>
      grows_to p (pickle ex (wsp_artifact ws (clock amb (ticks w)))) w steps)
   \<and> (rtp_save_steps ex amb rt p w = Inr steps \<longrightarrow>
      grows_to p (pickle ex (rtp_artifact rt (clock amb (ticks w)))) w steps)
   \<and> (wpp_save_steps ex amb wp p w = Inr steps \<longrightarrow>
      grows_to p (pickle ex (wpp_artifact wp (clock amb (ticks w)))) w steps)"
proof -
  have t: "grows_to p c (w\<lparr>ticks := Suc (ticks w)\<rparr>) steps \<Longrightarrow> grows_to p c w steps" for c
    by (simp add: grows_to_def)
  show ?thesis
    by (auto simp: wsp_save_steps_def rtp_save_steps_def wpp_save_steps_def now_def
        dest!: joblib_dump_steps_grows intro: t)
qed

theorem save_writes_destination_in_place_witness:
  "(\<exists>steps. wsp_save_steps stub_external ambient0 undecided_predictor
              ''models/workout_success_model.pkl'' world0 = Inr steps
      \<and> grows_to ''models/workout_success_model.pkl''
           [''model'', ''scaler'', ''feature_names'', ''trained_at''] world0 steps)
   \<and> (\<exists>steps. rtp_save_steps stub_external ambient0 RecoveryTimePredictor_init
              ''models/recovery_time_model.pkl'' world0 = Inr steps
      \<and> grows_to ''models/recovery_time_model.pkl''
           [''model'', ''scaler'', ''feature_names'', ''muscle_groups'', ''trained_at'']
           world0 steps)
   \<and> (\<exists>steps. wpp_save_steps stub_external ambient0 WeightProgressionPredictor_init
              ''models/weight_progression_model.pkl'' world0 = Inr steps
      \<and> grows_to ''models/weight_progression_model.pkl''
           [''model'', ''scaler'', ''feature_names'', ''trained_at''] world0 steps)"
proof -
  have ok: "destination_ok ''models/workout_success_model.pkl'' (world0\<lparr>ticks := Suc 0\<rparr>)"
    "destination_ok ''models/recovery_time_model.pkl'' (world0\<lparr>ticks := Suc 0\<rparr>)"
    "destination_ok ''models/weight_progression_model.pkl'' (world0\<lparr>ticks := Suc 0\<rparr>)"
    by (simp_all add: destination_ok_def dirname_def world0_def)
  obtain s1 where s1: "wsp_save_steps stub_external ambient0 undecided_predictor
              ''models/workout_success_model.pkl'' world0 = Inr s1"
    using ok(1) by (simp add: wsp_save_steps_def now_def joblib_dump_steps_cases world0_def)
  obtain s2 where s2: "rtp_save_steps stub_external ambient0 RecoveryTimePredictor_init
              ''models/recovery_time_model.pkl'' world0 = Inr s2"
    using ok(2) by (simp add: rtp_save_steps_def now_def joblib_dump_steps_cases world0_def)
  obtain s3 where s3: "wpp_save_steps stub_external ambient0 WeightProgressionPredictor_init
              ''models/weight_progression_model.pkl'' world0 = Inr s3"
    using ok(3) by (simp add: wpp_save_steps_def now_def joblib_dump_steps_cases world0_def)
  have k: "pickle stub_external (wsp_artifact undecided_predictor t)
      = [''model'', ''scaler'', ''feature_names'', ''trained_at'']"
    "pickle stub_external (rtp_artifact RecoveryTimePredictor_init t)
      = [''model'', ''scaler'', ''feature_names'', ''muscle_groups'', ''trained_at'']"
    "pickle stub_external (wpp_artifact WeightProgressionPredictor_init t)
      = [''model'', ''scaler'', ''feature_names'', ''trained_at'']" for t
    by (simp_all add: stub_external_def wsp_artifact_def rtp_artifact_def wpp_artifact_def)
  from save_writes_destination_in_place
    [where ex = stub_external and amb = ambient0 and ws = undecided_predictor
       and p = "''models/workout_success_model.pkl''" and w = world0 and steps = s1]
    s1 have g1: "grows_to ''models/workout_success_model.pkl''
           [''model'', ''scaler'', ''feature_names'', ''trained_at''] world0 s1"
    by (simp add: k)
  from save_writes_destination_in_place
    [where ex = stub_external and amb = ambient0 and rt = RecoveryTimePredictor_init
       and p = "''models/recovery_time_model.pkl''" and w = world0 and steps = s2]
    s2 have g2: "grows_to ''models/recovery_time_model.pkl''
           [''model'', ''scaler'', ''feature_names'', ''muscle_groups'', ''trained_at'']
           world0 s2"
    by (simp add: k)
  from save_writes_destination_in_place
    [where ex = stub_external and amb = ambient0 and wp = WeightProgressionPredictor_init
       and p = "''models/weight_progression_model.pkl''" and w = world0 and steps = s3]
    s3 have g3: "grows_to ''models/weight_progression_model.pkl''
           [''model'', ''scaler'', ''feature_names'', ''trained_at''] world0 s3"
    by (simp add: k)
  from s1 g1 s2 g2 s3 g3 show ?thesis by blast
qed

text \<open>
  The claim as stated fails: with a pickler that writes four chunks, the destination
  holds only the first two of them after the second write.
\<close>

theorem save_shows_partial_artifact:
  "\<exists>steps. wsp_save_steps stub_external ambient0 undecided_predictor
             ''models/workout_success_model.pkl'' world0 = Inr steps
     \<and> files world0 ''models/workout_success_model.pkl'' = None
     \<and> concat (pickle stub_external
          (wsp_artifact undecided_predictor ''2025-01-01T00:00:00'' :: (real, real) artifact))
         = ''modelscalerfeature_namestrained_at''
     \<and> files (steps ! 2) ''models/workout_success_model.pkl'' = Some ''modelscaler''
     \<and> \<not> never_partial ''models/workout_success_model.pkl''
           ''modelscalerfeature_namestrained_at'' world0 steps"
  by (simp add: wsp_save_steps_def now_def joblib_dump_steps_def open_wb_def destination_ok_def
      dirname_def world0_def ambient0_def stub_external_def wsp_artifact_def file_write_def
      never_partial_def)

subsection \<open>The main block\<close>

lemma train_workout_success_model_Inl:
  "train_workout_success_model sk ex amb data_path w = (w', Inl e)
     \<Longrightarrow> w' = print_line (Training WorkoutSuccess) w"
  by (auto simp: train_workout_success_model_def Let_def split: sum.splits prod.splits)

lemma train_recovery_model_Inl:
  "train_recovery_model sk ex amb data_path w = (w', Inl e)
     \<Longrightarrow> w' = print_line (Training RecoveryTime) w"
  by (auto simp: train_recovery_model_def Let_def split: sum.splits prod.splits)

lemma train_progression_model_Inl:
  "train_progression_model sk ex amb data_path w = (w', Inl e)
     \<Longrightarrow> w' = print_line (Training WeightProgression) w"
  by (auto simp: train_progression_model_def Let_def split: sum.splits prod.splits)

lemma wsp_prepare_extra:
  "wsp_prepare_data (WorkoutSuccessPredictor_init :: 'c WorkoutSuccessPredictor)
       (success_data @ extra)
     = wsp_prepare_data (WorkoutSuccessPredictor_init :: 'c WorkoutSuccessPredictor) success_data"
  by (simp add: wsp_prepare_data_def WorkoutSuccessPredictor_init_def success_data_def getitem_def)

lemma rtp_prepare_extra:
  "rtp_prepare_data (RecoveryTimePredictor_init :: 'r RecoveryTimePredictor)
       (success_data @ recovery_data @ extra)
     = rtp_prepare_data (RecoveryTimePredictor_init :: 'r RecoveryTimePredictor) recovery_data"
  by (simp add: rtp_prepare_data_def RecoveryTimePredictor_init_def success_data_def
      recovery_data_def getitem_def)

lemma wpp_prepare_extra:
  "wpp_prepare_data (WeightProgressionPredictor_init :: 'r WeightProgressionPredictor)
       (success_data @ recovery_data @ progression_columns)
     = wpp_prepare_data (WeightProgressionPredictor_init :: 'r WeightProgressionPredictor)
         progression_columns"
  by (simp add: wpp_prepare_data_def WeightProgressionPredictor_init_def success_data_def
      recovery_data_def progression_columns_def prepare_defs)

lemma replicate_9: "replicate 9 x = [x, x, x, x, x, x, x, x, x]"
  by (simp add: eval_nat_numeral)

lemma wsp_train_stub:
  "\<exists>p m. wsp_train stub_sklearn () WorkoutSuccessPredictor_init success_data = Inr (p, m)"
  by (simp add: wsp_train_def wsp_prepare_data_def WorkoutSuccessPredictor_init_def
      success_data_def prepare_defs split_defs stub_sklearn_def upt_rec scaler_defs metric_defs
      replicate_9 del: not_None_eq)

lemma wpp_train_stub:
  "\<exists>p m. wpp_train stub_sklearn () WeightProgressionPredictor_init progression_columns = Inr (p, m)"
  by (simp add: wpp_train_def wpp_prepare_data_def regressor_train_def
      WeightProgressionPredictor_init_def progression_columns_def prepare_defs split_defs
      stub_sklearn_def upt_rec scaler_defs metric_defs del: not_None_eq)

lemma failing_trains:
  "wsp_train stub_sklearn () WorkoutSuccessPredictor_init recovery_data = Inl (KeyError ''sleep_hours'')"
  "rtp_train stub_sklearn () RecoveryTimePredictor_init success_data = Inl (KeyError ''muscle_group'')"
  "wpp_train stub_sklearn () WeightProgressionPredictor_init (success_data @ recovery_data)
     = Inl (KeyError ''successful'')"
  by (simp_all add: wsp_train_def wsp_prepare_data_def rtp_train_def rtp_prepare_data_def
      wpp_train_def wpp_prepare_data_def WorkoutSuccessPredictor_init_def
      RecoveryTimePredictor_init_def WeightProgressionPredictor_init_def
      success_data_def recovery_data_def getitem_def)


lemma write_chunks_keeps:
  "w' \<in> set (w # write_chunks p chunks w)
     \<Longrightarrow> dirs w' = dirs w \<and> stdout w' = stdout w \<and> ticks w' = ticks w"
proof (induction chunks arbitrary: w)
  case Nil
  then show ?case by simp
next
  case (Cons chunk chunks)
  from Cons.prems consider "w' = w"
    | "w' \<in> set (file_write p chunk w # write_chunks p chunks (file_write p chunk w))" by auto
  then show ?case
  proof cases
    case 1
    then show ?thesis by simp
  next
    case 2
    from Cons.IH[OF this] show ?thesis by (simp add: file_write_def)
  qed
qed

lemma joblib_dump_steps_keeps:
  assumes "joblib_dump_steps ex v p w = Inr steps"
  shows "dirs (last steps) = dirs w \<and> stdout (last steps) = stdout w \<and> ticks (last steps) = ticks w"
proof -
  define opened where "opened = w\<lparr>files := (files w)(p \<mapsto> [])\<rparr>"
  from assms have st: "steps = opened # write_chunks p (pickle ex v) opened"
    by (simp add: joblib_dump_steps_cases opened_def split: if_splits)
  then have "last steps \<in> set (opened # write_chunks p (pickle ex v) opened)"
    using last_in_set[of steps] by simp
  from write_chunks_keeps[OF this] show ?thesis by (simp add: opened_def)
qed

lemma destination_ok_dirs: "dirs w' = dirs w \<Longrightarrow> destination_ok p w' = destination_ok p w"
  by (simp add: destination_ok_def)

lemma wsp_save_ok:
  assumes "destination_ok p w"
  shows "\<exists>w'. wsp_save ex amb self p w = Inr w' \<and> dirs w' = dirs w
           \<and> stdout w' = stdout w @ [Saved p]"
proof -
  from assms obtain steps where
    s: "joblib_dump_steps ex (wsp_artifact self (clock amb (ticks w))) p (w\<lparr>ticks := Suc (ticks w)\<rparr>)
          = Inr steps"
    by (simp add: joblib_dump_steps_cases destination_ok_def)
  from joblib_dump_steps_keeps[OF s] s show ?thesis
    by (simp add: wsp_save_def wsp_save_steps_def now_def print_line_def)
qed

lemma rtp_save_keeps:
  assumes "destination_ok p w"
  shows "\<exists>w'. rtp_save ex amb self p w = Inr w' \<and> dirs w' = dirs w
           \<and> stdout w' = stdout w @ [Saved p]"
proof -
  from assms obtain steps where
    s: "joblib_dump_steps ex (rtp_artifact self (clock amb (ticks w))) p (w\<lparr>ticks := Suc (ticks w)\<rparr>)
          = Inr steps"
    by (simp add: joblib_dump_steps_cases destination_ok_def)
  from joblib_dump_steps_keeps[OF s] s show ?thesis
    by (simp add: rtp_save_def rtp_save_steps_def now_def print_line_def)
qed

lemma wpp_save_ok:
  assumes "destination_ok p w"
  shows "\<exists>w'. wpp_save ex amb self p w = Inr w' \<and> dirs w' = dirs w
           \<and> stdout w' = stdout w @ [Saved p]"
proof -
  from assms obtain steps where
    s: "joblib_dump_steps ex (wpp_artifact self (clock amb (ticks w))) p (w\<lparr>ticks := Suc (ticks w)\<rparr>)
          = Inr steps"
    by (simp add: joblib_dump_steps_cases destination_ok_def)
  from joblib_dump_steps_keeps[OF s] s show ?thesis
    by (simp add: wpp_save_def wpp_save_steps_def now_def print_line_def)
qed

lemma train_workout_success_model_ok:
  assumes "read_csv ex data_path = Inr df"
    and "wsp_train sk (numpy_rng amb) WorkoutSuccessPredictor_init df = Inr (p, m)"
    and "dirs w = [''models'']"
  shows "\<exists>w'. train_workout_success_model sk ex amb data_path w = (w', Inr (p, m))
           \<and> dirs w' = [''models'']
           \<and> stdout w' = stdout w @ [Training WorkoutSuccess,
                                      Saved ''models/workout_success_model.pkl'']"
proof -
  have "destination_ok ''models/workout_success_model.pkl'' (print_line (Training WorkoutSuccess) w)"
    using assms(3) by (simp add: destination_ok_def dirname_def print_line_def)
  from wsp_save_ok[OF this, of ex amb p] assms show ?thesis
    by (auto simp: train_workout_success_model_def print_line_def)
qed

lemma train_recovery_model_ok:
  assumes "read_csv ex data_path = Inr df"
    and "rtp_train sk (numpy_rng amb) RecoveryTimePredictor_init df = Inr (p, m)"
    and "dirs w = [''models'']"
  shows "\<exists>w'. train_recovery_model sk ex amb data_path w = (w', Inr (p, m))
           \<and> dirs w' = [''models'']
           \<and> stdout w' = stdout w @ [Training RecoveryTime,
                                      Saved ''models/recovery_time_model.pkl'']"
proof -
  have "destination_ok ''models/recovery_time_model.pkl'' (print_line (Training RecoveryTime) w)"
    using assms(3) by (simp add: destination_ok_def dirname_def print_line_def)
  from rtp_save_keeps[OF this, of ex amb p] assms show ?thesis
    by (auto simp: train_recovery_model_def print_line_def)
qed

lemma train_progression_model_ok:
  assumes "read_csv ex data_path = Inr df"
    and "wpp_train sk (numpy_rng amb) WeightProgressionPredictor_init df = Inr (p, m)"
    and "dirs w = [''models'']"
  shows "\<exists>w'. train_progression_model sk ex amb data_path w = (w', Inr (p, m))
           \<and> dirs w' = [''models'']
           \<and> stdout w' = stdout w @ [Training WeightProgression,
                                      Saved ''models/weight_progression_model.pkl'']"
proof -
  have "destination_ok ''models/weight_progression_model.pkl''
          (print_line (Training WeightProgression) w)"
    using assms(3) by (simp add: destination_ok_def dirname_def print_line_def)
  from wpp_save_ok[OF this, of ex amb p] assms show ?thesis
    by (auto simp: train_progression_model_def print_line_def)
qed

lemma stub_tables:
  "read_csv stub_external ''success.csv'' = Inr success_data"
  "read_csv stub_external ''recovery.csv'' = Inr recovery_data"
  "read_csv stub_external ''sessions.csv'' = Inr (success_data @ recovery_data)"
  "read_csv stub_external ''all.csv'' = Inr (success_data @ recovery_data @ progression_columns)"
  by (simp_all add: stub_external_def)

lemma stub_trains_on_more_columns:
  "wsp_train sk g WorkoutSuccessPredictor_init (success_data @ extra)
     = wsp_train sk g WorkoutSuccessPredictor_init success_data"
  "rtp_train sk g RecoveryTimePredictor_init (success_data @ recovery_data @ extra)
     = rtp_train sk g RecoveryTimePredictor_init recovery_data"
  "wpp_train sk g WeightProgressionPredictor_init
       (success_data @ recovery_data @ progression_columns)
     = wpp_train sk g WeightProgressionPredictor_init progression_columns"
  by (simp_all only: wsp_train_def rtp_train_def wpp_train_def wsp_prepare_extra rtp_prepare_extra
      wpp_prepare_extra)

lemma task_fails:
  "read_csv ex data_path = Inr df \<Longrightarrow>
   wsp_train sk (numpy_rng amb) WorkoutSuccessPredictor_init df = Inl e \<Longrightarrow>
   train_workout_success_model sk ex amb data_path w
     = (print_line (Training WorkoutSuccess) w, Inl e)"
  "read_csv ex data_path = Inr df \<Longrightarrow>
   rtp_train sk (numpy_rng amb) RecoveryTimePredictor_init df = Inl e \<Longrightarrow>
   train_recovery_model sk ex amb data_path w = (print_line (Training RecoveryTime) w, Inl e)"
  "read_csv ex data_path = Inr df \<Longrightarrow>
   wpp_train sk (numpy_rng amb) WeightProgressionPredictor_init df = Inl e \<Longrightarrow>
   train_progression_model sk ex amb data_path w
     = (print_line (Training WeightProgression) w, Inl e)"
  by (simp_all add: train_workout_success_model_def train_recovery_model_def
      train_progression_model_def)

lemma ambient0_rng: "numpy_rng ambient0 = ()"
  by simp

lemma banner_world0:
  "dirs (print_line PipelineBanner world0) = [''models'']"
  "stdout (print_line PipelineBanner world0) = [PipelineBanner]"
  by (simp_all add: print_line_def world0_def)

text \<open>
  C6 (as amended). In an invocation with \<^verbatim>\<open>--model all\<close> the three tasks run in the
  order success, recovery, progression, and nothing catches an exception: when a task
  raises, the run ends with that error right after the line that announced the task, and
  the tasks after it are not attempted. A task runs only when every task before it has
  succeeded, and the closing line is printed only when all three have.
\<close>

theorem main_all_stops_at_first_failure:
  assumes "arg_model args = ''all''"
  shows
    "(train_workout_success_model sk ex amb (arg_data args) (print_line PipelineBanner w)
        = (wa, Inl e) \<longrightarrow>
      main sk ex amb args w = (wa, Inl e)
      \<and> wa = print_line (Training WorkoutSuccess) (print_line PipelineBanner w))
   \<and> (train_workout_success_model sk ex amb (arg_data args) (print_line PipelineBanner w)
        = (wa, Inr ra)
      \<and> train_recovery_model sk ex amb (arg_data args) wa = (wb, Inl e) \<longrightarrow>
      main sk ex amb args w = (wb, Inl e) \<and> wb = print_line (Training RecoveryTime) wa)
   \<and> (train_workout_success_model sk ex amb (arg_data args) (print_line PipelineBanner w)
        = (wa, Inr ra)
      \<and> train_recovery_model sk ex amb (arg_data args) wa = (wb, Inr rb)
      \<and> train_progression_model sk ex amb (arg_data args) wb = (wc, Inl e) \<longrightarrow>
      main sk ex amb args w = (wc, Inl e) \<and> wc = print_line (Training WeightProgression) wb)
   \<and> (train_workout_success_model sk ex amb (arg_data args) (print_line PipelineBanner w)
        = (wa, Inr ra)
      \<and> train_recovery_model sk ex amb (arg_data args) wa = (wb, Inr rb)
      \<and> train_progression_model sk ex amb (arg_data args) wb = (wc, Inr rc) \<longrightarrow>
      main sk ex amb args w = (print_line TrainingComplete wc, Inr ()))"
  using assms
  by (auto simp: main_def run_task_def Let_def
      dest: train_workout_success_model_Inl train_recovery_model_Inl train_progression_model_Inl)

theorem main_all_stops_at_first_failure_witness:
  "(\<exists>w'. main stub_sklearn stub_external ambient0
            \<lparr>arg_model = ''all'', arg_data = ''recovery.csv''\<rparr> world0
          = (w', Inl (KeyError ''sleep_hours''))
      \<and> stdout w' = [PipelineBanner, Training WorkoutSuccess])
   \<and> (\<exists>w'. main stub_sklearn stub_external ambient0
            \<lparr>arg_model = ''all'', arg_data = ''success.csv''\<rparr> world0
          = (w', Inl (KeyError ''muscle_group''))
      \<and> stdout w' = [PipelineBanner, Training WorkoutSuccess,
                      Saved ''models/workout_success_model.pkl'', Training RecoveryTime])
   \<and> (\<exists>w'. main stub_sklearn stub_external ambient0
            \<lparr>arg_model = ''all'', arg_data = ''sessions.csv''\<rparr> world0
          = (w', Inl (KeyError ''successful''))
      \<and> stdout w' = [PipelineBanner, Training WorkoutSuccess,
                      Saved ''models/workout_success_model.pkl'', Training RecoveryTime,
                      Saved ''models/recovery_time_model.pkl'', Training WeightProgression])
   \<and> (\<exists>w'. main stub_sklearn stub_external ambient0
            \<lparr>arg_model = ''all'', arg_data = ''all.csv''\<rparr> world0
          = (w', Inr ())
      \<and> stdout w' = [PipelineBanner, Training WorkoutSuccess,
                      Saved ''models/workout_success_model.pkl'', Training RecoveryTime,
                      Saved ''models/recovery_time_model.pkl'', Training WeightProgression,
                      Saved ''models/weight_progression_model.pkl'', TrainingComplete])"
proof -
  let ?w0 = "print_line PipelineBanner world0"
  note rule_all = main_all_stops_at_first_failure
    [where sk = stub_sklearn and ex = stub_external and amb = ambient0 and w = world0]
  from wsp_train_stub obtain p1 m1 where
    t1: "wsp_train stub_sklearn () WorkoutSuccessPredictor_init success_data = Inr (p1, m1)"
    by blast
  from rtp_train_stub obtain p2 m2 where
    t2: "rtp_train stub_sklearn () RecoveryTimePredictor_init recovery_data = Inr (p2, m2)"
    by blast
  from wpp_train_stub obtain p3 m3 where
    t3: "wpp_train stub_sklearn () WeightProgressionPredictor_init progression_columns
           = Inr (p3, m3)"
    by blast
  \<comment> \<open>the first task fails\<close>
  have a1: "train_workout_success_model stub_sklearn stub_external ambient0 ''recovery.csv'' ?w0
      = (print_line (Training WorkoutSuccess) ?w0, Inl (KeyError ''sleep_hours''))"
    by (rule task_fails(1)[OF stub_tables(2)]) (simp add: ambient0_def failing_trains(1))
  from rule_all[where args = "\<lparr>arg_model = ''all'', arg_data = ''recovery.csv''\<rparr>"
      and wa = "print_line (Training WorkoutSuccess) ?w0" and e = "KeyError ''sleep_hours''"] a1
  have c1: "main stub_sklearn stub_external ambient0
            \<lparr>arg_model = ''all'', arg_data = ''recovery.csv''\<rparr> world0
          = (print_line (Training WorkoutSuccess) ?w0, Inl (KeyError ''sleep_hours''))"
    by simp
  \<comment> \<open>the first task succeeds, the second fails\<close>
  from train_workout_success_model_ok[OF stub_tables(1) _ banner_world0(1), of stub_sklearn ambient0 p1 m1] t1
  obtain w1 where
    b1: "train_workout_success_model stub_sklearn stub_external ambient0 ''success.csv'' ?w0
           = (w1, Inr (p1, m1))"
    and s1: "stdout w1 = [PipelineBanner, Training WorkoutSuccess,
                          Saved ''models/workout_success_model.pkl'']"
    by (auto simp: ambient0_def banner_world0)
  have b2: "train_recovery_model stub_sklearn stub_external ambient0 ''success.csv'' w1
      = (print_line (Training RecoveryTime) w1, Inl (KeyError ''muscle_group''))"
    by (rule task_fails(2)[OF stub_tables(1)]) (simp add: ambient0_def failing_trains(2))
  from rule_all[where args = "\<lparr>arg_model = ''all'', arg_data = ''success.csv''\<rparr>"
      and wa = w1 and ra = "(p1, m1)" and wb = "print_line (Training RecoveryTime) w1"
      and e = "KeyError ''muscle_group''"] b1 b2
  have c2: "main stub_sklearn stub_external ambient0
            \<lparr>arg_model = ''all'', arg_data = ''success.csv''\<rparr> world0
          = (print_line (Training RecoveryTime) w1, Inl (KeyError ''muscle_group''))"
    by simp
  \<comment> \<open>the first two tasks succeed, the third fails\<close>
  from train_workout_success_model_ok[OF stub_tables(3) _ banner_world0(1), of stub_sklearn ambient0 p1 m1] t1
  obtain v1 where
    d1: "train_workout_success_model stub_sklearn stub_external ambient0 ''sessions.csv'' ?w0
           = (v1, Inr (p1, m1))"
    and dv1: "dirs v1 = [''models'']"
    and sv1: "stdout v1 = [PipelineBanner, Training WorkoutSuccess,
                          Saved ''models/workout_success_model.pkl'']"
    by (auto simp: ambient0_def banner_world0 stub_trains_on_more_columns)
  have "rtp_train stub_sklearn (numpy_rng ambient0) RecoveryTimePredictor_init
          (success_data @ recovery_data) = Inr (p2, m2)"
    using stub_trains_on_more_columns(2)[of stub_sklearn "()" "[]"] t2 by (simp add: ambient0_def)
  from train_recovery_model_ok[OF stub_tables(3) this dv1]
  obtain v2 where
    d2: "train_recovery_model stub_sklearn stub_external ambient0 ''sessions.csv'' v1
           = (v2, Inr (p2, m2))"
    and sv2: "stdout v2 = [PipelineBanner, Training WorkoutSuccess,
                          Saved ''models/workout_success_model.pkl'', Training RecoveryTime,
                          Saved ''models/recovery_time_model.pkl'']"
    by (auto simp: sv1)
  have d3: "train_progression_model stub_sklearn stub_external ambient0 ''sessions.csv'' v2
      = (print_line (Training WeightProgression) v2, Inl (KeyError ''successful''))"
    by (rule task_fails(3)[OF stub_tables(3)]) (simp add: ambient0_def failing_trains(3))
  from rule_all[where args = "\<lparr>arg_model = ''all'', arg_data = ''sessions.csv''\<rparr>"
      and wa = v1 and ra = "(p1, m1)" and wb = v2 and rb = "(p2, m2)"
      and wc = "print_line (Training WeightProgression) v2"
      and e = "KeyError ''successful''"] d1 d2 d3
  have c3: "main stub_sklearn stub_external ambient0
            \<lparr>arg_model = ''all'', arg_data = ''sessions.csv''\<rparr> world0
          = (print_line (Training WeightProgression) v2, Inl (KeyError ''successful''))"
    by simp
  \<comment> \<open>all three tasks succeed\<close>
  from train_workout_success_model_ok[OF stub_tables(4) _ banner_world0(1), of stub_sklearn ambient0 p1 m1] t1
  obtain u1 where
    e1: "train_workout_success_model stub_sklearn stub_external ambient0 ''all.csv'' ?w0
           = (u1, Inr (p1, m1))"
    and du1: "dirs u1 = [''models'']"
    and su1: "stdout u1 = [PipelineBanner, Training WorkoutSuccess,
                          Saved ''models/workout_success_model.pkl'']"
    by (auto simp: ambient0_def banner_world0 stub_trains_on_more_columns)
  have "rtp_train stub_sklearn (numpy_rng ambient0) RecoveryTimePredictor_init
          (success_data @ recovery_data @ progression_columns) = Inr (p2, m2)"
    using t2 by (simp add: ambient0_def stub_trains_on_more_columns)
  from train_recovery_model_ok[OF stub_tables(4) this du1]
  obtain u2 where
    e2: "train_recovery_model stub_sklearn stub_external ambient0 ''all.csv'' u1
           = (u2, Inr (p2, m2))"
    and du2: "dirs u2 = [''models'']"
    and su2: "stdout u2 = [PipelineBanner, Training WorkoutSuccess,
                          Saved ''models/workout_success_model.pkl'', Training RecoveryTime,
                          Saved ''models/recovery_time_model.pkl'']"
    by (auto simp: su1)
  have "wpp_train stub_sklearn (numpy_rng ambient0) WeightProgressionPredictor_init
          (success_data @ recovery_data @ progression_columns) = Inr (p3, m3)"
    using t3 by (simp add: ambient0_def stub_trains_on_more_columns)
  from train_progression_model_ok[OF stub_tables(4) this du2]
  obtain u3 where
    e3: "train_progression_model stub_sklearn stub_external ambient0 ''all.csv'' u2
           = (u3, Inr (p3, m3))"
    and su3: "stdout u3 = [PipelineBanner, Training WorkoutSuccess,
                          Saved ''models/workout_success_model.pkl'', Training RecoveryTime,
                          Saved ''models/recovery_time_model.pkl'', Training WeightProgression,
                          Saved ''models/weight_progression_model.pkl'']"
    by (auto simp: su2)
  from rule_all[where args = "\<lparr>arg_model = ''all'', arg_data = ''all.csv''\<rparr>"
      and wa = u1 and ra = "(p1, m1)" and wb = u2 and rb = "(p2, m2)"
      and wc = u3 and rc = "(p3, m3)"] e1 e2 e3
  have c4: "main stub_sklearn stub_external ambient0
            \<lparr>arg_model = ''all'', arg_data = ''all.csv''\<rparr> world0
          = (print_line TrainingComplete u3, Inr ())"
    by simp
  show ?thesis
    using c1 c2 c3 c4 s1 sv2 su3 by (simp add: print_line_def world0_def)
qed

text \<open>
  The claim as stated fails: on a table that holds the columns of the recovery task only,
  the success task raises \<^verbatim>\<open>KeyError\<close> and the run ends there. The recovery task,
  which succeeds on this table when run by itself, is not attempted, and neither is the
  progression task.
\<close>

theorem failed_task_prevents_remaining_tasks:
  "\<exists>w'. main stub_sklearn stub_external ambient0
           \<lparr>arg_model = ''all'', arg_data = ''recovery.csv''\<rparr> world0
         = (w', Inl (KeyError ''sleep_hours''))
     \<and> \<not> attempted RecoveryTime w'
     \<and> \<not> attempted WeightProgression w'
     \<and> files w' ''models/recovery_time_model.pkl'' = None
     \<and> (\<exists>w'' p m. train_recovery_model stub_sklearn stub_external ambient0 ''recovery.csv''
                      world0 = (w'', Inr (p, m)))"
proof -
  let ?w0 = "print_line PipelineBanner world0"
  have a: "train_workout_success_model stub_sklearn stub_external ambient0 ''recovery.csv'' ?w0
      = (print_line (Training WorkoutSuccess) ?w0, Inl (KeyError ''sleep_hours''))"
    by (rule task_fails(1)[OF stub_tables(2)]) (simp add: ambient0_def failing_trains(1))
  have "main stub_sklearn stub_external ambient0
           \<lparr>arg_model = ''all'', arg_data = ''recovery.csv''\<rparr> world0
      = (print_line (Training WorkoutSuccess) ?w0, Inl (KeyError ''sleep_hours''))"
    by (simp add: main_def run_task_def a)
  with recovery_run_stub show ?thesis
    by (simp add: attempted_def print_line_def world0_def)
qed

subsection \<open>prepare_data and the caller's dataset\<close>

lemma unchanged_refl: "unchanged st st"
  by (simp add: unchanged_def)

lemma unchanged_trans: "unchanged a b \<Longrightarrow> unchanged b c \<Longrightarrow> unchanged a c"
  by (auto simp: unchanged_def)

lemma unchanged_alloc: "alloc c st = (a, st') \<Longrightarrow> unchanged st st'"
  by (auto simp: alloc_def unchanged_def)

lemma column_at_unchanged: "unchanged st st' \<Longrightarrow> a < lim st \<Longrightarrow> column_at st' a = column_at st a"
  by (simp add: unchanged_def column_at_def)

lemma load_frame_unchanged:
  "unchanged st st' \<Longrightarrow> allocated st fr \<Longrightarrow> load_frame st' fr = load_frame st fr"
  by (auto simp: load_frame_def allocated_def list_all_iff column_at_unchanged)

lemma allocated_unchanged: "allocated st fr \<Longrightarrow> unchanged st st' \<Longrightarrow> allocated st' fr"
  by (auto simp: allocated_def unchanged_def list_all_iff)

lemma fresh_unchanged: "fresh st' fr \<Longrightarrow> unchanged st st' \<Longrightarrow> fresh st fr"
  by (auto simp: fresh_def unchanged_def list_all_iff)

lemma alloc_frame_props:
  "alloc_frame df st = (fr, st') \<Longrightarrow>
     unchanged st st' \<and> fresh st fr \<and> allocated st' fr \<and> load_frame st' fr = df"
proof (induction df arbitrary: st fr st')
  case Nil
  then show ?case by (simp add: unchanged_refl fresh_def allocated_def load_frame_def)
next
  case (Cons p df)
  obtain name c where p: "p = (name, c)" by (cases p)
  obtain a st1 where a: "alloc c st = (a, st1)" by (cases "alloc c st")
  obtain rest st2 where r: "alloc_frame df st1 = (rest, st2)" by (cases "alloc_frame df st1")
  from Cons.prems p a r have fr: "fr = (name, a) # rest" and st': "st' = st2" by simp_all
  from a have a_eq: "a = lim st" and l1: "lim st1 = Suc (lim st)"
    and c1: "column_at st1 a = c"
    by (auto simp: alloc_def column_at_def)
  from Cons.IH[OF r] have u12: "unchanged st1 st2" and f: "fresh st1 rest"
    and al: "allocated st2 rest" and ld: "load_frame st2 rest = df" by simp_all
  have u: "unchanged st st2" using unchanged_alloc[OF a] u12 by (rule unchanged_trans)
  have "column_at st2 a = c" using column_at_unchanged[OF u12, of a] a_eq l1 c1 by simp
  moreover have "a < lim st2" using u12 a_eq l1 by (simp add: unchanged_def)
  moreover have "fresh st rest" using f l1 by (auto simp: fresh_def list_all_iff)
  ultimately show ?case
    using u al ld a_eq by (simp add: fr st' p fresh_def allocated_def load_frame_def)
qed

lemma alloc_props:
  "alloc c st = (a, st') \<Longrightarrow> unchanged st st' \<and> lim st \<le> a \<and> a < lim st' \<and> column_at st' a = c"
  by (auto simp: alloc_def unchanged_def column_at_def)

lemma h_getitem_load:
  "h_getitem fr name = Inr a \<Longrightarrow> getitem (load_frame st fr) name = Inr (column_at st a)"
  by (auto simp: h_getitem_def getitem_def load_frame_def map_of_map split: option.splits)

lemma h_getitem_Inl:
  "h_getitem fr name = Inl e \<Longrightarrow> getitem (load_frame st fr) name = Inl e"
  by (auto simp: h_getitem_def getitem_def load_frame_def map_of_map split: option.splits)

lemma h_getitem_allocated:
  "h_getitem fr name = Inr a \<Longrightarrow> allocated st fr \<Longrightarrow> a < lim st"
  by (auto simp: h_getitem_def allocated_def list_all_iff split: option.splits dest: map_of_SomeD)

lemma h_getitem_fresh:
  "h_getitem fr name = Inr a \<Longrightarrow> fresh st fr \<Longrightarrow> lim st \<le> a"
  by (auto simp: h_getitem_def fresh_def list_all_iff split: option.splits dest: map_of_SomeD)


lemma h_getitem_list_props:
  assumes "h_getitem_list fr names st = Inr (out, st')"
  shows "unchanged st st' \<and> fresh st out \<and> allocated st' out
       \<and> getitem_list (load_frame st fr) names = Inr (load_frame st' out)"
  using assms by (auto simp: h_getitem_list_def and_then_eq_Inr dest: alloc_frame_props)

lemma h_fillna_props:
  assumes "h_fillna fr values st = (out, st')"
  shows "unchanged st st' \<and> fresh st out \<and> allocated st' out
       \<and> load_frame st' out = fillna (load_frame st fr) values"
  using assms by (auto simp: h_fillna_def dest: alloc_frame_props)

lemma h_astype_int_props:
  assumes "h_astype_int a st = Inr (y, st')"
  shows "unchanged st st' \<and> lim st \<le> y \<and> y < lim st'
       \<and> (\<exists>ys. astype_int (column_at st a) = Inr ys \<and> column_at st' y = int_column ys)"
  using assms by (auto simp: h_astype_int_def and_then_eq_Inr dest: alloc_props)

lemma h_get_dummies_props:
  assumes "h_get_dummies a prefix st = Inr (out, st')"
  shows "unchanged st st' \<and> fresh st out \<and> allocated st' out
       \<and> get_dummies (column_at st a) prefix = Inr (load_frame st' out)"
  using assms by (auto simp: h_get_dummies_def and_then_eq_Inr dest: alloc_frame_props)

lemma h_concat_props:
  assumes "h_concat fr1 fr2 st = (out, st')"
  shows "unchanged st st' \<and> fresh st out \<and> allocated st' out
       \<and> load_frame st' out = concat_columns (load_frame st fr1) (load_frame st fr2)"
  using assms by (auto simp: h_concat_def dest: alloc_frame_props)

lemma h_getitem_mask_props:
  assumes "h_getitem_mask fr sel st = (out, st')"
  shows "unchanged st st' \<and> fresh st out \<and> allocated st' out
       \<and> load_frame st' out = getitem_mask (load_frame st fr) sel"
  using assms by (auto simp: h_getitem_mask_def dest: alloc_frame_props)

lemma h_copy_props:
  assumes "h_copy fr st = (out, st')"
  shows "unchanged st st' \<and> fresh st out \<and> allocated st' out
       \<and> load_frame st' out = load_frame st fr"
  using assms by (auto simp: h_copy_def dest: alloc_frame_props)

lemma case_prod_eq_Inr:
  "(case p of (a, b) \<Rightarrow> f a b) = Inr r \<longleftrightarrow> (\<exists>a b. p = (a, b) \<and> f a b = Inr r)"
  by (cases p) simp

lemma h_wsp_prepare_data_props:
  assumes run: "h_wsp_prepare_data self df st = Inr ((X, y), st')"
    and df: "allocated st df"
  shows "unchanged st st' \<and> fresh st X \<and> lim st \<le> y
       \<and> (\<exists>ys. wsp_prepare_data self (load_frame st df) = Inr (load_frame st' X, ys)
                \<and> column_at st' y = int_column ys)"
proof -
  from run obtain features st1 features' st2 medians st3 completed where
    g1: "h_getitem_list df (wsp_feature_names self) st = Inr (features, st1)"
    and g2: "h_getitem_list df (wsp_feature_names self) st1 = Inr (features', st2)"
    and m: "h_median features' st2 = Inr medians"
    and f: "h_fillna features medians st2 = (X, st3)"
    and c: "h_getitem df ''workout_completed'' = Inr completed"
    and a: "h_astype_int completed st3 = Inr (y, st')"
    by (auto simp: h_wsp_prepare_data_def and_then_eq_Inr case_prod_eq_Inr)
  note p1 = h_getitem_list_props[OF g1] and p2 = h_getitem_list_props[OF g2]
    and p3 = h_fillna_props[OF f] and p4 = h_astype_int_props[OF a]
  from p1 p2 have u2: "unchanged st st2" by (blast intro: unchanged_trans)
  with p3 have u3: "unchanged st st3" by (blast intro: unchanged_trans)
  with p4 have u: "unchanged st st'" by (blast intro: unchanged_trans)
  have fX: "fresh st X" using p3 u2 by (blast intro: fresh_unchanged)
  have fy: "lim st \<le> y" using p4 u3 by (auto simp: unchanged_def)
  have d1: "load_frame st1 df = load_frame st df"
    using p1 df by (blast intro: load_frame_unchanged)
  have l1: "load_frame st2 features = load_frame st1 features"
    using p1 p2 by (blast intro: load_frame_unchanged)
  have same: "load_frame st2 features' = load_frame st1 features"
    using p1 p2 d1 by simp
  have med: "median (load_frame st1 features) = Inr medians"
    using m same by (simp add: h_median_def)
  have lX: "load_frame st' X = fillna (load_frame st1 features) medians"
    using p3 p4 l1 load_frame_unchanged[of st3 st' X] by simp
  have "completed < lim st" using c df by (rule h_getitem_allocated)
  then have cc: "column_at st3 completed = column_at st completed"
    using u3 by (simp add: column_at_unchanged)
  from p4 cc obtain ys where
    ys: "astype_int (column_at st completed) = Inr ys" and cy: "column_at st' y = int_column ys"
    by auto
  have "wsp_prepare_data self (load_frame st df) = Inr (load_frame st' X, ys)"
    using p1 med lX ys h_getitem_load[OF c, of st]
    by (simp add: wsp_prepare_data_def)
  with u fX fy cy show ?thesis by blast
qed


lemma h_rtp_prepare_data_props:
  assumes run: "h_rtp_prepare_data self df st = Inr ((X, y), st')"
    and df: "allocated st df"
  shows "unchanged st st' \<and> fresh st X
       \<and> h_getitem df ''actual_recovery_days'' = Inr y \<and> y < lim st
       \<and> rtp_prepare_data self (load_frame st df) = Inr (load_frame st' X, column_at st' y)"
proof -
  from run obtain mg dummies st1 features st2 features' st3 medians filled st4 where
    g: "h_getitem df ''muscle_group'' = Inr mg"
    and d: "h_get_dummies mg ''muscle'' st = Inr (dummies, st1)"
    and g1: "h_getitem_list df (rtp_feature_names self) st1 = Inr (features, st2)"
    and g2: "h_getitem_list df (rtp_feature_names self) st2 = Inr (features', st3)"
    and m: "h_median features' st3 = Inr medians"
    and f: "h_fillna features medians st3 = (filled, st4)"
    and c: "h_concat filled dummies st4 = (X, st')"
    and t: "h_getitem df ''actual_recovery_days'' = Inr y"
    by (auto simp: h_rtp_prepare_data_def and_then_eq_Inr case_prod_eq_Inr)
  note p0 = h_get_dummies_props[OF d] and p1 = h_getitem_list_props[OF g1]
    and p2 = h_getitem_list_props[OF g2] and p3 = h_fillna_props[OF f]
    and p4 = h_concat_props[OF c]
  from p0 p1 have u2: "unchanged st st2" by (blast intro: unchanged_trans)
  with p2 have u3: "unchanged st st3" by (blast intro: unchanged_trans)
  with p3 have u4: "unchanged st st4" by (blast intro: unchanged_trans)
  with p4 have u: "unchanged st st'" by (blast intro: unchanged_trans)
  have fX: "fresh st X" using p4 u4 by (blast intro: fresh_unchanged)
  have yl: "y < lim st" using t df by (rule h_getitem_allocated)
  have yc: "column_at st' y = column_at st y" using u yl by (rule column_at_unchanged)
  have d1: "load_frame st1 df = load_frame st df"
    using p0 df by (blast intro: load_frame_unchanged)
  have d2: "load_frame st2 df = load_frame st df"
    using u2 df by (rule load_frame_unchanged)
  have same: "load_frame st3 features' = load_frame st2 features"
    using p1 p2 d1 d2 by simp
  have l3: "load_frame st3 features = load_frame st2 features"
    using p1 p2 by (blast intro: load_frame_unchanged)
  have med: "median (load_frame st2 features) = Inr medians"
    using m same by (simp add: h_median_def)
  have u14: "unchanged st1 st4" using p1 p2 p3 by (blast intro: unchanged_trans)
  have ld: "load_frame st4 dummies = load_frame st1 dummies"
    using u14 p0 by (blast intro: load_frame_unchanged)
  have lX: "load_frame st' X
      = concat_columns (fillna (load_frame st2 features) medians) (load_frame st1 dummies)"
    using p3 p4 l3 ld by simp
  have "rtp_prepare_data self (load_frame st df) = Inr (load_frame st' X, column_at st' y)"
    using h_getitem_load[OF g, of st] p0 p1 d1 med lX h_getitem_load[OF t, of st] yc
    by (simp add: rtp_prepare_data_def)
  with u fX t yl show ?thesis by blast
qed

lemma h_wpp_prepare_data_props:
  assumes run: "h_wpp_prepare_data self df st = Inr ((X, y), st')"
    and df: "allocated st df"
  shows "unchanged st st' \<and> fresh st X \<and> lim st \<le> y
       \<and> wpp_prepare_data self (load_frame st df) = Inr (load_frame st' X, column_at st' y)"
proof -
  from run obtain s selected st1 df_success st2 features st3 features' st4 medians where
    g: "h_getitem df ''successful'' = Inr s"
    and k: "h_getitem_mask df (h_eq_True s st) st = (selected, st1)"
    and c: "h_copy selected st1 = (df_success, st2)"
    and g1: "h_getitem_list df_success (wpp_feature_names self) st2 = Inr (features, st3)"
    and g2: "h_getitem_list df_success (wpp_feature_names self) st3 = Inr (features', st4)"
    and m: "h_median features' st4 = Inr medians"
    and f: "h_fillna features medians st4 = (X, st')"
    and t: "h_getitem df_success ''weight_increase'' = Inr y"
    by (auto simp: h_wpp_prepare_data_def and_then_eq_Inr case_prod_eq_Inr)
  note p0 = h_getitem_mask_props[OF k] and pc = h_copy_props[OF c]
    and p1 = h_getitem_list_props[OF g1] and p2 = h_getitem_list_props[OF g2]
    and p3 = h_fillna_props[OF f]
  from p0 pc have u2: "unchanged st st2" by (blast intro: unchanged_trans)
  with p1 have u3: "unchanged st st3" by (blast intro: unchanged_trans)
  with p2 have u4: "unchanged st st4" by (blast intro: unchanged_trans)
  with p3 have u: "unchanged st st'" by (blast intro: unchanged_trans)
  have fX: "fresh st X" using p3 u4 by (blast intro: fresh_unchanged)
  have "fresh st df_success" using pc p0 by (blast intro: fresh_unchanged)
  with t have fy: "lim st \<le> y" by (rule h_getitem_fresh)
  have yl: "y < lim st2" using t pc by (blast intro: h_getitem_allocated)
  have u2': "unchanged st2 st'" using p1 p2 p3 by (blast intro: unchanged_trans)
  have yc: "column_at st' y = column_at st2 y" using u2' yl by (rule column_at_unchanged)
  have ls: "load_frame st2 df_success = getitem_mask (load_frame st df) (eq_True (column_at st s))"
    using p0 pc by (simp add: h_eq_True_def)
  have d3: "load_frame st3 df_success = load_frame st2 df_success"
    using p1 pc by (blast intro: load_frame_unchanged)
  have same: "load_frame st4 features' = load_frame st3 features"
    using p1 p2 d3 by simp
  have l4: "load_frame st4 features = load_frame st3 features"
    using p1 p2 by (blast intro: load_frame_unchanged)
  have med: "median (load_frame st3 features) = Inr medians"
    using m same by (simp add: h_median_def)
  have lX: "load_frame st' X = fillna (load_frame st3 features) medians"
    using p3 l4 by simp
  have "wpp_prepare_data self (load_frame st df) = Inr (load_frame st' X, column_at st' y)"
    using h_getitem_load[OF g, of st] p1 ls med lX h_getitem_load[OF t, of st2] yc
    by (simp add: wpp_prepare_data_def)
  with u fX fy show ?thesis by blast
qed

text \<open>The store-level methods return whenever the value-level ones do.\<close>

lemma getitem_load_h:
  "getitem (load_frame st fr) name = Inr c \<Longrightarrow> \<exists>a. h_getitem fr name = Inr a \<and> column_at st a = c"
  by (auto simp: h_getitem_def getitem_def load_frame_def map_of_map split: option.splits)

lemma h_getitem_list_returns:
  "getitem_list (load_frame st fr) names = Inr df
     \<Longrightarrow> \<exists>out st'. h_getitem_list fr names st = Inr (out, st')"
  by (cases "alloc_frame df st") (simp add: h_getitem_list_def)

lemma h_wsp_prepare_data_returns:
  assumes pure: "wsp_prepare_data self (load_frame st df) = Inr (Xv, ys)"
    and df: "allocated st df"
  shows "\<exists>X y st'. h_wsp_prepare_data self df st = Inr ((X, y), st')"
proof -
  from pure obtain fs medians c where
    a1: "getitem_list (load_frame st df) (wsp_feature_names self) = Inr fs"
    and a2: "median fs = Inr medians"
    and a3: "getitem (load_frame st df) ''workout_completed'' = Inr c"
    and a4: "astype_int c = Inr ys"
    by (auto simp: wsp_prepare_data_def and_then_eq_Inr)
  from h_getitem_list_returns[OF a1] obtain features st1 where
    g1: "h_getitem_list df (wsp_feature_names self) st = Inr (features, st1)" by blast
  note p1 = h_getitem_list_props[OF g1]
  have d1: "load_frame st1 df = load_frame st df"
    using p1 df by (blast intro: load_frame_unchanged)
  from h_getitem_list_returns[of st1 df, unfolded d1, OF a1] obtain features' st2 where
    g2: "h_getitem_list df (wsp_feature_names self) st1 = Inr (features', st2)" by blast
  note p2 = h_getitem_list_props[OF g2]
  have m: "h_median features' st2 = Inr medians"
    using p2 d1 a1 a2 by (simp add: h_median_def)
  obtain X st3 where f: "h_fillna features medians st2 = (X, st3)"
    by (cases "h_fillna features medians st2")
  note p3 = h_fillna_props[OF f]
  from getitem_load_h[OF a3] obtain completed where
    c: "h_getitem df ''workout_completed'' = Inr completed" and cc: "column_at st completed = c"
    by blast
  have u3: "unchanged st st3" using p1 p2 p3 by (blast intro: unchanged_trans)
  have "completed < lim st" using c df by (rule h_getitem_allocated)
  then have "column_at st3 completed = c" using u3 cc by (simp add: column_at_unchanged)
  with a4 obtain y st4 where a: "h_astype_int completed st3 = Inr (y, st4)"
    by (cases "alloc (int_column ys) st3") (simp add: h_astype_int_def)
  from g1 g2 m f c a show ?thesis
    by (simp add: h_wsp_prepare_data_def)
qed

lemma h_rtp_prepare_data_returns:
  assumes pure: "rtp_prepare_data self (load_frame st df) = Inr (Xv, yv)"
    and df: "allocated st df"
  shows "\<exists>X y st'. h_rtp_prepare_data self df st = Inr ((X, y), st')"
proof -
  from pure obtain mgv dv fs medians where
    a0: "getitem (load_frame st df) ''muscle_group'' = Inr mgv"
    and a0': "get_dummies mgv ''muscle'' = Inr dv"
    and a1: "getitem_list (load_frame st df) (rtp_feature_names self) = Inr fs"
    and a2: "median fs = Inr medians"
    and a3: "getitem (load_frame st df) ''actual_recovery_days'' = Inr yv"
    by (auto simp: rtp_prepare_data_def and_then_eq_Inr)
  from getitem_load_h[OF a0] obtain mg where
    g: "h_getitem df ''muscle_group'' = Inr mg" and gc: "column_at st mg = mgv" by blast
  obtain dummies st1 where d: "h_get_dummies mg ''muscle'' st = Inr (dummies, st1)"
    using a0' gc by (cases "alloc_frame dv st") (simp add: h_get_dummies_def)
  note p0 = h_get_dummies_props[OF d]
  have d1: "load_frame st1 df = load_frame st df"
    using p0 df by (blast intro: load_frame_unchanged)
  from h_getitem_list_returns[of st1 df, unfolded d1, OF a1] obtain features st2 where
    g1: "h_getitem_list df (rtp_feature_names self) st1 = Inr (features, st2)" by blast
  note p1 = h_getitem_list_props[OF g1]
  have u2: "unchanged st st2" using p0 p1 by (blast intro: unchanged_trans)
  have d2: "load_frame st2 df = load_frame st df" using u2 df by (rule load_frame_unchanged)
  from h_getitem_list_returns[of st2 df, unfolded d2, OF a1] obtain features' st3 where
    g2: "h_getitem_list df (rtp_feature_names self) st2 = Inr (features', st3)" by blast
  note p2 = h_getitem_list_props[OF g2]
  have m: "h_median features' st3 = Inr medians"
    using p2 d2 a1 a2 by (simp add: h_median_def)
  obtain filled st4 where f: "h_fillna features medians st3 = (filled, st4)"
    by (cases "h_fillna features medians st3")
  obtain X st5 where c: "h_concat filled dummies st4 = (X, st5)"
    by (cases "h_concat filled dummies st4")
  from getitem_load_h[OF a3] obtain y where
    t: "h_getitem df ''actual_recovery_days'' = Inr y" by blast
  from g d g1 g2 m f c t show ?thesis
    by (simp add: h_rtp_prepare_data_def)
qed

lemma h_wpp_prepare_data_returns:
  assumes pure: "wpp_prepare_data self (load_frame st df) = Inr (Xv, yv)"
    and df: "allocated st df"
  shows "\<exists>X y st'. h_wpp_prepare_data self df st = Inr ((X, y), st')"
proof -
  from pure obtain sv fs medians where
    a0: "getitem (load_frame st df) ''successful'' = Inr sv"
    and a1: "getitem_list (getitem_mask (load_frame st df) (eq_True sv))
               (wpp_feature_names self) = Inr fs"
    and a2: "median fs = Inr medians"
    and a3: "getitem (getitem_mask (load_frame st df) (eq_True sv)) ''weight_increase'' = Inr yv"
    by (auto simp: wpp_prepare_data_def and_then_eq_Inr Let_def)
  from getitem_load_h[OF a0] obtain s where
    g: "h_getitem df ''successful'' = Inr s" and gc: "column_at st s = sv" by blast
  obtain selected st1 where k: "h_getitem_mask df (h_eq_True s st) st = (selected, st1)"
    by (cases "h_getitem_mask df (h_eq_True s st) st")
  obtain df_success st2 where c: "h_copy selected st1 = (df_success, st2)"
    by (cases "h_copy selected st1")
  note p0 = h_getitem_mask_props[OF k] and pc = h_copy_props[OF c]
  have ls: "load_frame st2 df_success = getitem_mask (load_frame st df) (eq_True sv)"
    using p0 pc gc by (simp add: h_eq_True_def)
  from h_getitem_list_returns[of st2 df_success, unfolded ls, OF a1] obtain features st3 where
    g1: "h_getitem_list df_success (wpp_feature_names self) st2 = Inr (features, st3)" by blast
  note p1 = h_getitem_list_props[OF g1]
  have d3: "load_frame st3 df_success = getitem_mask (load_frame st df) (eq_True sv)"
    using p1 pc ls load_frame_unchanged[of st2 st3 df_success] by simp
  from h_getitem_list_returns[of st3 df_success, unfolded d3, OF a1] obtain features' st4 where
    g2: "h_getitem_list df_success (wpp_feature_names self) st3 = Inr (features', st4)" by blast
  note p2 = h_getitem_list_props[OF g2]
  have m: "h_median features' st4 = Inr medians"
    using p2 d3 a1 a2 by (simp add: h_median_def)
  obtain X st5 where f: "h_fillna features medians st4 = (X, st5)"
    by (cases "h_fillna features medians st4")
  from getitem_load_h[of st2 df_success, unfolded ls, OF a3] obtain y where
    t: "h_getitem df_success ''weight_increase'' = Inr y" by blast
  from g k c g1 g2 m f t show ?thesis
    by (simp add: h_wpp_prepare_data_def)
qed

lemma alloc_recovery:
  "fst (alloc_frame recovery_data empty_store)
     = [(''workout_volume'', 0), (''workout_intensity'', 1), (''sleep_quality'', 2),
        (''nutrition_quality'', 3), (''muscle_group'', 4), (''actual_recovery_days'', 5)]
   \<and> lim (snd (alloc_frame recovery_data empty_store)) = 6"
  by (simp add: recovery_data_def alloc_def empty_store_def)

lemma pure_prepare_examples:
  "\<exists>X y. wsp_prepare_data (WorkoutSuccessPredictor_init :: real WorkoutSuccessPredictor)
            success_data = Inr (X, y)"
  "\<exists>X y. rtp_prepare_data (RecoveryTimePredictor_init :: real RecoveryTimePredictor)
            recovery_data = Inr (X, y)"
  "\<exists>X y. wpp_prepare_data (WeightProgressionPredictor_init :: real WeightProgressionPredictor)
            progression_data = Inr (X, y)"
  by (simp_all add: wsp_prepare_data_def WorkoutSuccessPredictor_init_def success_data_def
      rtp_prepare_data_def RecoveryTimePredictor_init_def recovery_data_def
      wpp_prepare_data_def WeightProgressionPredictor_init_def progression_data_def
      prepare_defs del: not_None_eq)

text \<open>
  C9 (as amended). \<^verbatim>\<open>prepare_data\<close> of each of the three predictors leaves every buffer
  that existed before the call as it was, so the caller's dataset is the same after the
  call, and the feature matrix it returns lies in new buffers. The target lies in a new
  buffer for the success predictor (\<^verbatim>\<open>astype\<close>) and for the progression predictor (a
  column of the filtered copy); for the recovery predictor it is the
  \<^verbatim>\<open>actual_recovery_days\<close> column of the caller's dataset itself.
\<close>

theorem prepare_data_leaves_dataset_unchanged:
  assumes "allocated st df"
  shows
    "(h_wsp_prepare_data ws df st = Inr ((X, y), st') \<longrightarrow>
        unchanged st st' \<and> load_frame st' df = load_frame st df \<and> fresh st X \<and> lim st \<le> y)
     \<and> (h_rtp_prepare_data rt df st = Inr ((X, y), st') \<longrightarrow>
        unchanged st st' \<and> load_frame st' df = load_frame st df \<and> fresh st X
        \<and> map_of df ''actual_recovery_days'' = Some y)
     \<and> (h_wpp_prepare_data wp df st = Inr ((X, y), st') \<longrightarrow>
        unchanged st st' \<and> load_frame st' df = load_frame st df \<and> fresh st X \<and> lim st \<le> y)"
proof -
  have a: "unchanged st st' \<and> load_frame st' df = load_frame st df \<and> fresh st X \<and> lim st \<le> y"
    if r: "h_wsp_prepare_data ws df st = Inr ((X, y), st')"
    using h_wsp_prepare_data_props[OF r assms] assms by (auto intro: load_frame_unchanged)
  have b: "unchanged st st' \<and> load_frame st' df = load_frame st df \<and> fresh st X
        \<and> map_of df ''actual_recovery_days'' = Some y"
    if r: "h_rtp_prepare_data rt df st = Inr ((X, y), st')"
    using h_rtp_prepare_data_props[OF r assms] assms
    by (auto intro: load_frame_unchanged simp: h_getitem_def split: option.splits)
  have c: "unchanged st st' \<and> load_frame st' df = load_frame st df \<and> fresh st X \<and> lim st \<le> y"
    if r: "h_wpp_prepare_data wp df st = Inr ((X, y), st')"
    using h_wpp_prepare_data_props[OF r assms] assms by (auto intro: load_frame_unchanged)
  from a b c show ?thesis by blast
qed

theorem prepare_data_leaves_dataset_unchanged_witness:
  "(\<exists>df st X y st'. alloc_frame success_data empty_store = (df, st) \<and> allocated st df
      \<and> h_wsp_prepare_data (WorkoutSuccessPredictor_init :: real WorkoutSuccessPredictor) df st
          = Inr ((X, y), st')
      \<and> unchanged st st' \<and> load_frame st' df = success_data \<and> fresh st X \<and> lim st \<le> y)
   \<and> (\<exists>df st X y st'. alloc_frame recovery_data empty_store = (df, st) \<and> allocated st df
      \<and> h_rtp_prepare_data (RecoveryTimePredictor_init :: real RecoveryTimePredictor) df st
          = Inr ((X, y), st')
      \<and> unchanged st st' \<and> load_frame st' df = recovery_data \<and> fresh st X
      \<and> map_of df ''actual_recovery_days'' = Some y)
   \<and> (\<exists>df st X y st'. alloc_frame progression_data empty_store = (df, st) \<and> allocated st df
      \<and> h_wpp_prepare_data (WeightProgressionPredictor_init :: real WeightProgressionPredictor)
          df st = Inr ((X, y), st')
      \<and> unchanged st st' \<and> load_frame st' df = progression_data \<and> fresh st X \<and> lim st \<le> y)"
proof (intro conjI)
  obtain df st where a: "alloc_frame success_data empty_store = (df, st)"
    by (cases "alloc_frame success_data empty_store")
  from alloc_frame_props[OF a] have al: "allocated st df" and ld: "load_frame st df = success_data"
    by simp_all
  from pure_prepare_examples(1) h_wsp_prepare_data_returns[of _ st df, unfolded ld, OF _ al]
  obtain X y st' where
    r: "h_wsp_prepare_data (WorkoutSuccessPredictor_init :: real WorkoutSuccessPredictor) df st
          = Inr ((X, y), st')" by blast
  from prepare_data_leaves_dataset_unchanged[OF al, where X = X and y = y and st' = st'
      and ws = "WorkoutSuccessPredictor_init :: real WorkoutSuccessPredictor"] r a al ld
  show "\<exists>df st X y st'. alloc_frame success_data empty_store = (df, st) \<and> allocated st df
      \<and> h_wsp_prepare_data (WorkoutSuccessPredictor_init :: real WorkoutSuccessPredictor) df st
          = Inr ((X, y), st')
      \<and> unchanged st st' \<and> load_frame st' df = success_data \<and> fresh st X \<and> lim st \<le> y"
    by auto
next
  obtain df st where a: "alloc_frame recovery_data empty_store = (df, st)"
    by (cases "alloc_frame recovery_data empty_store")
  from alloc_frame_props[OF a] have al: "allocated st df" and ld: "load_frame st df = recovery_data"
    by simp_all
  from pure_prepare_examples(2) h_rtp_prepare_data_returns[of _ st df, unfolded ld, OF _ al]
  obtain X y st' where
    r: "h_rtp_prepare_data (RecoveryTimePredictor_init :: real RecoveryTimePredictor) df st
          = Inr ((X, y), st')" by blast
  from prepare_data_leaves_dataset_unchanged[OF al, where X = X and y = y and st' = st'
      and rt = "RecoveryTimePredictor_init :: real RecoveryTimePredictor"] r a al ld
  show "\<exists>df st X y st'. alloc_frame recovery_data empty_store = (df, st) \<and> allocated st df
      \<and> h_rtp_prepare_data (RecoveryTimePredictor_init :: real RecoveryTimePredictor) df st
          = Inr ((X, y), st')
      \<and> unchanged st st' \<and> load_frame st' df = recovery_data \<and> fresh st X
      \<and> map_of df ''actual_recovery_days'' = Some y"
    by auto
next
  obtain df st where a: "alloc_frame progression_data empty_store = (df, st)"
    by (cases "alloc_frame progression_data empty_store")
  from alloc_frame_props[OF a] have al: "allocated st df"
    and ld: "load_frame st df = progression_data" by simp_all
  from pure_prepare_examples(3) h_wpp_prepare_data_returns[of _ st df, unfolded ld, OF _ al]
  obtain X y st' where
    r: "h_wpp_prepare_data (WeightProgressionPredictor_init :: real WeightProgressionPredictor)
          df st = Inr ((X, y), st')" by blast
  from prepare_data_leaves_dataset_unchanged[OF al, where X = X and y = y and st' = st'
      and wp = "WeightProgressionPredictor_init :: real WeightProgressionPredictor"] r a al ld
  show "\<exists>df st X y st'. alloc_frame progression_data empty_store = (df, st) \<and> allocated st df
      \<and> h_wpp_prepare_data (WeightProgressionPredictor_init :: real WeightProgressionPredictor)
          df st = Inr ((X, y), st')
      \<and> unchanged st st' \<and> load_frame st' df = progression_data \<and> fresh st X \<and> lim st \<le> y"
    by auto
qed

text \<open>
  The claim as stated fails for the recovery predictor: with the example dataset in the
  buffers 0 to 5, the target returned is buffer 5, the dataset's own
  \<^verbatim>\<open>actual_recovery_days\<close> column, and not a fresh value.
\<close>

theorem recovery_target_is_the_datasets_own_column:
  "\<exists>df st X y st'. alloc_frame recovery_data empty_store = (df, st)
     \<and> map_of df ''actual_recovery_days'' = Some 5 \<and> lim st = 6
     \<and> h_rtp_prepare_data (RecoveryTimePredictor_init :: real RecoveryTimePredictor) df st
         = Inr ((X, y), st')
     \<and> y = 5
     \<and> \<not> lim st \<le> y"
proof -
  obtain df st where a: "alloc_frame recovery_data empty_store = (df, st)"
    by (cases "alloc_frame recovery_data empty_store")
  from alloc_frame_props[OF a] have al: "allocated st df" and ld: "load_frame st df = recovery_data"
    by simp_all
  from alloc_recovery a have m: "map_of df ''actual_recovery_days'' = Some 5" and l: "lim st = 6"
    by simp_all
  from pure_prepare_examples(2) h_rtp_prepare_data_returns[of _ st df, unfolded ld, OF _ al]
  obtain X y st' where
    r: "h_rtp_prepare_data (RecoveryTimePredictor_init :: real RecoveryTimePredictor) df st
          = Inr ((X, y), st')" by blast
  from h_rtp_prepare_data_props[OF r al] m have "y = 5"
    by (simp add: h_getitem_def)
  with a m l r show ?thesis by auto
qed

end
